theory Spec2Isabelle
  imports Main "HOL-Library.Signed_Division" "HOL-Library.AList" "HOL-Library.Sublist"
begin

section \<open>The promtail client: data model\<close>

text \<open>
  A shallow embedding of \<^verbatim>\<open>clients/pkg/promtail/client/client.go\<close>.
  Go's \<^verbatim>\<open>int\<close> is modelled by \<^typ>\<open>int\<close> (the sizes and counts handled here stay far
  below \<open>2^63\<close>), a point in time by the \<^typ>\<open>int\<close> of its nanoseconds, a
  \<^verbatim>\<open>time.Duration\<close> by the \<^typ>\<open>int\<close> of its nanoseconds, kept within 64 bits where the
  source subtracts two points in time (\<open>Sub\<close> below), byte slices by \<^typ>\<open>string\<close> (a list of 8-bit characters), and
  \<^verbatim>\<open>model.LabelSet\<close>, a Go map from label names to label values, by a HOL map.
  Integer division of Go truncates towards zero: it is \<open>sdiv\<close>.
\<close>

type_synonym LabelSet = "string \<rightharpoonup> string"
type_synonym buffer = "string"

text \<open>\<^verbatim>\<open>logproto.Entry\<close> and \<^verbatim>\<open>api.Entry\<close> (a label set and an embedded \<^verbatim>\<open>logproto.Entry\<close>).\<close>

record logproto_Entry =
  Timestamp :: int
  Line :: string

record api_Entry =
  Labels :: LabelSet
  Entry :: logproto_Entry

text \<open>\<^verbatim>\<open>logproto.Stream\<close>: the label string of the stream and its entries, in append order.\<close>

record logproto_Stream =
  StreamLabels :: string
  Entries :: "logproto_Entry list"

text \<open>Every error value the client handles, named after the call it comes from.\<close>

datatype error =
    ErrNotExist           \<comment> \<open>\<^verbatim>\<open>os.Stat\<close>: the path does not exist\<close>
  | ErrNewWalReader       \<comment> \<open>\<^verbatim>\<open>wal.NewWalReader\<close>\<close>
  | ErrBatchAdd           \<comment> \<open>\<^verbatim>\<open>batch.add\<close>\<close>
  | ErrEncode             \<comment> \<open>\<^verbatim>\<open>batch.encode\<close>\<close>
  | ErrNewRequest         \<comment> \<open>\<^verbatim>\<open>http.NewRequest\<close>\<close>
  | ErrDo                 \<comment> \<open>\<^verbatim>\<open>http.Client.Do\<close>: a transport-level error, no response\<close>
  | ErrStatus int         \<comment> \<open>\<^verbatim>\<open>server returned HTTP status ...\<close>, built by \<^verbatim>\<open>send\<close>\<close>
  | ErrParseMetric        \<comment> \<open>\<^verbatim>\<open>parser.ParseMetric\<close>\<close>
  | ErrDeleteSegment      \<comment> \<open>\<^verbatim>\<open>SegmentDeleter.DeleteSegment\<close>\<close>

text \<open>
  The fields of \<^verbatim>\<open>Config\<close> and of the \<^verbatim>\<open>client\<close> struct that the modelled functions read.
  \<^verbatim>\<open>cfg_URL\<close> is \<^verbatim>\<open>c.cfg.URL.String()\<close>, \<^verbatim>\<open>cfg_Host\<close> is \<^verbatim>\<open>c.cfg.URL.Host\<close>, \<^verbatim>\<open>WAL_Dir\<close> is
  \<^verbatim>\<open>c.cfg.WAL.Dir\<close>.
\<close>

record Config =
  cfg_URL :: string
  cfg_Host :: string
  TenantID :: string
  BatchSize :: int
  BatchWait :: int
  WAL_Dir :: string

record client =
  name :: string
  cfg :: Config
  externalLabels :: LabelSet
  streamLagLabels :: "string list"

definition contentType :: string where
  "contentType = ''application/x-protobuf''"

definition ReservedLabelTenantID :: string where
  "ReservedLabelTenantID = ''__tenant_id__''"

definition HostLabel :: string where
  "HostLabel = ''host''"

definition ClientLabel :: string where
  "ClientLabel = ''client''"

section \<open>Tenant resolution\<close>

text \<open>
  \<^verbatim>\<open>getTenantID\<close> (lines 555-569): the reserved label, else the configured tenant,
  else the empty string.
\<close>

definition getTenantID :: "client \<Rightarrow> LabelSet \<Rightarrow> string" where
  "getTenantID c labels =
     (case labels ReservedLabelTenantID of
        Some v \<Rightarrow> v
      | None \<Rightarrow> if TenantID (cfg c) \<noteq> [] then TenantID (cfg c) else [])"

text \<open>
  \<^verbatim>\<open>LabelSet.Merge\<close> of prometheus/common copies the receiver and then stores every
  pair of the argument, so the argument's values win: it is \<open>++\<close> on maps.
  \<^verbatim>\<open>processEntry\<close> (lines 585-591) merges the external labels under the entry's own
  and resolves the tenant from the merged set.
\<close>

definition Merge :: "LabelSet \<Rightarrow> LabelSet \<Rightarrow> LabelSet" where
  "Merge l other = l ++ other"

definition processEntry :: "client \<Rightarrow> api_Entry \<Rightarrow> api_Entry \<times> string" where
  "processEntry c e =
     (let e = (if externalLabels c \<noteq> Map.empty
               then e\<lparr>Labels := Merge (externalLabels c) (Labels e)\<rparr> else e);
          tenantID = getTenantID c (Labels e)
      in (e, tenantID))"

section \<open>One HTTP attempt\<close>

text \<open>
  \<^verbatim>\<open>http.Request\<close>, as far as \<^verbatim>\<open>send\<close> fills it. \<^verbatim>\<open>Header.Set\<close> replaces the value
  stored under a name, so the header is a map from names to values; names are kept as
  the source writes them.
\<close>

record Request =
  Method :: string
  Url :: string
  Header :: "string \<rightharpoonup> string"
  Body :: buffer

text \<open>What \<^verbatim>\<open>c.client.Do\<close> gives back: a transport error, or a response with its status code.\<close>

datatype do_result = DoError | DoResponse int

text \<open>
  The collaborators of the sender that are not part of this file, over a state \<open>'w\<close>
  of the outside world (the network, the clock, the backoff timer):
  \<^item> \<open>UserAgent\<close> is the package variable \<^verbatim>\<open>UserAgent\<close> (\<^verbatim>\<open>promtail/<build.Version>\<close>);
  \<^item> \<open>NewRequest_fails\<close> tells whether \<^verbatim>\<open>http.NewRequest\<close> rejects the URL;
  \<^item> \<open>Do\<close> is \<^verbatim>\<open>c.client.Do\<close>;
  \<^item> \<open>backoff_New\<close>, \<open>backoff_Wait\<close>, \<open>backoff_Ongoing\<close> are dskit's \<^verbatim>\<open>backoff.New\<close>,
    \<^verbatim>\<open>Wait\<close> and \<^verbatim>\<open>Ongoing\<close>;
  \<^item> \<open>ParseMetric\<close> is \<^verbatim>\<open>parser.ParseMetric\<close> (\<open>None\<close> for an error, else the
    name-value pairs);
  \<^item> \<open>Now\<close> is \<^verbatim>\<open>time.Now\<close>: it gives the reading of the clock and the world after
    the reading, in which time may have passed.
\<close>

record 'w env =
  UserAgent :: string
  NewRequest_fails :: "string \<Rightarrow> bool"
  Do :: "Request \<Rightarrow> 'w \<Rightarrow> do_result \<times> 'w"
  backoff_New :: "'w \<Rightarrow> 'w"
  backoff_Wait :: "'w \<Rightarrow> 'w"
  backoff_Ongoing :: "'w \<Rightarrow> bool"
  ParseMetric :: "string \<Rightarrow> (string \<times> string) list option"
  Now :: "'w \<Rightarrow> int \<times> 'w"

text \<open>
  \<^verbatim>\<open>Time.Sub\<close>: the difference of two points in time as a \<^verbatim>\<open>time.Duration\<close>, a signed
  64-bit count of nanoseconds. A difference out of that range gives the largest or
  the smallest duration. \<^verbatim>\<open>time.Since(t)\<close> is \<^verbatim>\<open>time.Now().Sub(t)\<close>. The metrics receive
  a duration as \<^verbatim>\<open>Seconds()\<close>, a floating-point number; here they hold the duration
  itself.
\<close>

definition maxDuration :: int where
  "maxDuration = 2 ^ 63 - 1"

definition minDuration :: int where
  "minDuration = - (2 ^ 63)"

definition Sub :: "int \<Rightarrow> int \<Rightarrow> int" where
  "Sub t u =
     (if t - u > maxDuration then maxDuration
      else if t - u < minDuration then minDuration
      else t - u)"

text \<open>
  The request \<^verbatim>\<open>send\<close> builds (lines 524-536): the tenant header is set only for a
  tenant that is not the empty string.
\<close>

definition pushRequest :: "'w env \<Rightarrow> client \<Rightarrow> string \<Rightarrow> buffer \<Rightarrow> Request" where
  "pushRequest ev c tenantID buf =
     (let req = \<lparr>Method = ''POST'', Url = cfg_URL (cfg c), Header = Map.empty, Body = buf\<rparr>;
          req = req\<lparr>Header := (Header req)(''Content-Type'' \<mapsto> contentType)\<rparr>;
          req = req\<lparr>Header := (Header req)(''User-Agent'' \<mapsto> UserAgent ev)\<rparr>;
          req = (if tenantID \<noteq> []
                 then req\<lparr>Header := (Header req)(''X-Scope-OrgID'' \<mapsto> tenantID)\<rparr>
                 else req)
      in req)"

text \<open>
  \<^verbatim>\<open>send\<close> (lines 521-553). It returns the status and the error, as the source does,
  the requests it handed to \<^verbatim>\<open>Do\<close> (none or one), and the new state of the world.
  Without a response the status is \<open>-1\<close>.
\<close>

definition send ::
  "'w env \<Rightarrow> client \<Rightarrow> string \<Rightarrow> buffer \<Rightarrow> 'w \<Rightarrow> (int \<times> error option) \<times> Request list \<times> 'w" where
  "send ev c tenantID buf w =
     (if NewRequest_fails ev (cfg_URL (cfg c)) then ((- 1, Some ErrNewRequest), [], w)
      else
        let req = pushRequest ev c tenantID buf
        in case Do ev req w of
             (DoError, w') \<Rightarrow> ((- 1, Some ErrDo), [req], w')
           | (DoResponse code, w') \<Rightarrow>
               ((code, if code sdiv 100 \<noteq> 2 then Some (ErrStatus code) else None), [req], w'))"

section \<open>Batches\<close>

text \<open>
  \<^verbatim>\<open>batch.go\<close> is not among the sources: the functions of this file reach a batch
  only through its methods, which they take as a parameter. \<open>newBatch maxStreams now\<close>
  is \<^verbatim>\<open>newBatch(maxStreams)\<close> called at time \<open>now\<close>; \<open>add\<close> returns the batch as the call
  leaves it and the error; \<open>age b now\<close> is \<^verbatim>\<open>b.age()\<close> read at time \<open>now\<close>; \<open>encode\<close> gives
  the buffer and the number of entries, or the error; \<open>streams\<close> lists the values of
  the field \<^verbatim>\<open>batch.streams\<close> in the order a \<^verbatim>\<open>range\<close> visits them.
\<close>

record 'b batch_ops =
  newBatch :: "int \<Rightarrow> int \<Rightarrow> 'b"
  add :: "'b \<Rightarrow> api_Entry \<Rightarrow> 'b \<times> error option"
  replay :: "'b \<Rightarrow> api_Entry \<Rightarrow> 'b"
  sizeBytesAfter :: "'b \<Rightarrow> api_Entry \<Rightarrow> int"
  age :: "'b \<Rightarrow> int \<Rightarrow> int"
  encode :: "'b \<Rightarrow> error + (buffer \<times> nat)"
  streams :: "'b \<Rightarrow> logproto_Stream list"

text \<open>
  Modelled from the spec: the batch of \<^verbatim>\<open>batch.go\<close>, which is missing from the sources.
  The spec (sections 3 and 4.1) gives a batch a mapping from label sets to streams, a
  creation time and an accumulated size in bytes; \<^verbatim>\<open>add\<close> and \<^verbatim>\<open>replay\<close> append the entry
  to the stream of its label set, creating the stream if absent; \<^verbatim>\<open>replay\<close> bypasses the
  admission check of \<^verbatim>\<open>add\<close>; \<^verbatim>\<open>sizeBytesAfter\<close> is the size the batch would have with the
  entry added. The size of an entry is taken to be the length of its line. The
  admission check is the stream-count ceiling of section 9, the argument of
  \<^verbatim>\<open>newBatch\<close>, where \<open>0\<close> sets no ceiling; a refused entry leaves the batch as it was.
  The rendering of a label set as the key of its stream (\<open>render\<close>) and the wire
  encoding (\<open>marshal\<close>) are parameters.
\<close>

record batch =
  streams_of :: "(string \<times> logproto_Stream) list"
  bytes :: int
  createdAt :: int
  maxStreams :: int

definition batch_new :: "int \<Rightarrow> int \<Rightarrow> batch" where
  "batch_new n now = \<lparr>streams_of = [], bytes = 0, createdAt = now, maxStreams = n\<rparr>"

definition batch_replay :: "(LabelSet \<Rightarrow> string) \<Rightarrow> batch \<Rightarrow> api_Entry \<Rightarrow> batch" where
  "batch_replay render b e =
     (let labels = render (Labels e);
          s = (case map_of (streams_of b) labels of
                 Some s \<Rightarrow> s\<lparr>Entries := Entries s @ [Entry e]\<rparr>
               | None \<Rightarrow> \<lparr>StreamLabels = labels, Entries = [Entry e]\<rparr>)
      in b\<lparr>bytes := bytes b + int (length (Line (Entry e))),
           streams_of := AList.update labels s (streams_of b)\<rparr>)"

definition batch_add ::
  "(LabelSet \<Rightarrow> string) \<Rightarrow> batch \<Rightarrow> api_Entry \<Rightarrow> batch \<times> error option" where
  "batch_add render b e =
     (if map_of (streams_of b) (render (Labels e)) = None \<and> maxStreams b > 0
         \<and> int (length (streams_of b)) \<ge> maxStreams b
      then (b, Some ErrBatchAdd)
      else (batch_replay render b e, None))"

definition batch_sizeBytesAfter :: "batch \<Rightarrow> api_Entry \<Rightarrow> int" where
  "batch_sizeBytesAfter b e = bytes b + int (length (Line (Entry e)))"

definition batch_age :: "batch \<Rightarrow> int \<Rightarrow> int" where
  "batch_age b now = Sub now (createdAt b)"

definition batch_entries :: "batch \<Rightarrow> logproto_Entry list" where
  "batch_entries b = concat (map (\<lambda>(k, s). Entries s) (streams_of b))"

definition batch_encode ::
  "(logproto_Stream list \<Rightarrow> buffer option) \<Rightarrow> batch \<Rightarrow> error + (buffer \<times> nat)" where
  "batch_encode marshal b =
     (case marshal (map snd (streams_of b)) of
        None \<Rightarrow> Inl ErrEncode
      | Some buf \<Rightarrow> Inr (buf, length (batch_entries b)))"

definition spec_batch ::
  "(LabelSet \<Rightarrow> string) \<Rightarrow> (logproto_Stream list \<Rightarrow> buffer option) \<Rightarrow> batch batch_ops" where
  "spec_batch render marshal =
     \<lparr>newBatch = batch_new, add = batch_add render, replay = batch_replay render,
      sizeBytesAfter = batch_sizeBytesAfter, age = batch_age,
      encode = batch_encode marshal, streams = (\<lambda>b. map snd (streams_of b))\<rparr>"

text \<open>\<^verbatim>\<open>client.newBatch\<close> (lines 425-427) ignores the tenant and passes \<open>0\<close>.\<close>

definition client_newBatch :: "'b batch_ops \<Rightarrow> client \<Rightarrow> string \<Rightarrow> int \<Rightarrow> 'b" where
  "client_newBatch ops c tenantID now = newBatch ops 0 now"

section \<open>The sender\<close>

text \<open>
  The metrics the client updates, for the host of this client (every counter is read
  under the one label value \<^verbatim>\<open>c.cfg.URL.Host\<close>). A counter holds the sum of what was
  added to it; \<open>requestDuration\<close> lists the observations, in order, each with its
  status label and the duration observed; \<open>streamLag\<close> lists the \<^verbatim>\<open>Set\<close> calls on the gauge, in order, each with its
  labels and the duration it stores.
\<close>

record Metrics =
  encodedBytes :: nat
  sentBytes :: nat
  droppedBytes :: nat
  sentEntries :: nat
  droppedEntries :: nat
  requestDuration :: "(int \<times> int) list"
  batchRetries :: nat
  streamLag :: "(LabelSet \<times> int) list"

text \<open>
  How a call ends: it returns its error value (\<open>None\<close> is \<^verbatim>\<open>nil\<close>), or it panics.
\<close>

datatype exit = Returns "error option" | Panics

text \<open>The state \<^verbatim>\<open>sendBatch\<close> works on: the metrics, the requests made so far, the world.\<close>

record 'w sender =
  metrics :: Metrics
  requests :: "Request list"
  world :: 'w

text \<open>
  The inner loop of lines 475-480: the value of the last parsed label named \<open>lbl\<close>, or
  the empty string.
\<close>

definition lagValue :: "(string \<times> string) list \<Rightarrow> string \<Rightarrow> string" where
  "lagValue lbls lbl = foldl (\<lambda>v (n, x). if n = lbl then x else v) [] lbls"

definition lagLabels :: "client \<Rightarrow> (string \<times> string) list \<Rightarrow> LabelSet" where
  "lagLabels c lbls =
     (let lblSet = foldl (\<lambda>ls lbl. ls(lbl \<mapsto> lagValue lbls lbl)) Map.empty (streamLagLabels c);
          lblSet = lblSet(HostLabel \<mapsto> cfg_Host (cfg c));
          lblSet = lblSet(ClientLabel \<mapsto> name c)
      in lblSet)"

text \<open>
  The loop over the streams of the batch after a successful attempt (lines 462-493).
  A label string that does not parse ends \<^verbatim>\<open>sendBatch\<close> with that error;
  \<^verbatim>\<open>s.Entries[len(s.Entries)-1]\<close> panics on a stream without entries; otherwise the
  clock is read for the stream and the gauge is set to the time since the last entry
  of the stream.
\<close>

fun updateLag ::
  "'w env \<Rightarrow> client \<Rightarrow> logproto_Stream list \<Rightarrow> Metrics \<Rightarrow> 'w \<Rightarrow> exit \<times> Metrics \<times> 'w" where
  "updateLag ev c [] m w = (Returns None, m, w)"
| "updateLag ev c (s # ss) m w =
     (case ParseMetric ev (StreamLabels s) of
        None \<Rightarrow> (Returns (Some ErrParseMetric), m, w)
      | Some lbls \<Rightarrow>
          (if Entries s = [] then (Panics, m, w)
           else case Now ev w of
                  (now, w') \<Rightarrow>
                    updateLag ev c ss
                      (m\<lparr>streamLag := streamLag m
                            @ [(lagLabels c lbls, Sub now (Timestamp (last (Entries s))))]\<rparr>)
                      w'))"

text \<open>
  One turn of the loop of lines 452-511: the attempt returns from \<^verbatim>\<open>sendBatch\<close>, breaks
  out of the loop with the error of the attempt, or goes round again. The clock is
  read before the attempt (\<^verbatim>\<open>start\<close>) and after it, for the duration observed.
\<close>

datatype 'w turn = Return exit "'w sender" | Break "error option" "'w sender" | Again "'w sender"

definition attempt ::
  "'w env \<Rightarrow> 'b batch_ops \<Rightarrow> client \<Rightarrow> string \<Rightarrow> 'b \<Rightarrow> buffer \<Rightarrow> nat \<Rightarrow> 'w sender \<Rightarrow> 'w turn" where
  "attempt ev ops c tenantID b buf entriesCount st =
     (case Now ev (world st) of
        (start, w) \<Rightarrow>
     (case send ev c tenantID buf w of
        ((status, err), rs, w) \<Rightarrow>
     (case Now ev w of
        (now, w) \<Rightarrow>
          let m = metrics st;
              m = m\<lparr>requestDuration := requestDuration m @ [(status, Sub now start)]\<rparr>;
              st = st\<lparr>metrics := m, requests := requests st @ rs, world := w\<rparr>
          in if err = None then
               let m = m\<lparr>sentBytes := sentBytes m + length buf\<rparr>;
                   m = m\<lparr>sentEntries := sentEntries m + entriesCount\<rparr>
               in case updateLag ev c (streams ops b) m w of
                    (r, m, w) \<Rightarrow> Return r (st\<lparr>metrics := m, world := w\<rparr>)
             else if status > 0 \<and> status \<noteq> 429 \<and> status sdiv 100 \<noteq> 5 then Break err st
             else
               let m = m\<lparr>batchRetries := batchRetries m + 1\<rparr>;
                   st = st\<lparr>metrics := m, world := backoff_Wait ev w\<rparr>
               in if \<not> backoff_Ongoing ev (world st) then Break err st else Again st)))"

text \<open>Lines 513-518, the code after the loop.\<close>

definition afterLoop :: "buffer \<Rightarrow> nat \<Rightarrow> error option \<Rightarrow> 'w sender \<Rightarrow> exit \<times> 'w sender" where
  "afterLoop buf entriesCount err st =
     (if err \<noteq> None
      then (Returns err,
            st\<lparr>metrics := (metrics st)\<lparr>droppedBytes := droppedBytes (metrics st) + length buf,
                                         droppedEntries := droppedEntries (metrics st) + entriesCount\<rparr>\<rparr>)
      else (Returns err, st))"

text \<open>
  The loop itself. Nothing bounds the number of turns but the backoff, which is not
  part of this file: a loop that never ends has the value \<open>None\<close>.
\<close>

partial_function (option) sendLoop ::
  "'w env \<Rightarrow> 'b batch_ops \<Rightarrow> client \<Rightarrow> string \<Rightarrow> 'b \<Rightarrow> buffer \<Rightarrow> nat \<Rightarrow> 'w sender
     \<Rightarrow> (exit \<times> 'w sender) option" where
  "sendLoop ev ops c tenantID b buf entriesCount st =
     (case attempt ev ops c tenantID b buf entriesCount st of
        Return r st' \<Rightarrow> Some (r, st')
      | Break err st' \<Rightarrow> Some (afterLoop buf entriesCount err st')
      | Again st' \<Rightarrow> sendLoop ev ops c tenantID b buf entriesCount st')"

text \<open>\<^verbatim>\<open>sendBatch\<close> (lines 441-519).\<close>

definition sendBatch ::
  "'w env \<Rightarrow> 'b batch_ops \<Rightarrow> client \<Rightarrow> string \<Rightarrow> 'b \<Rightarrow> 'w sender \<Rightarrow> (exit \<times> 'w sender) option" where
  "sendBatch ev ops c tenantID b st =
     (case encode ops b of
        Inl err \<Rightarrow> Some (Returns (Some err), st)
      | Inr (buf, entriesCount) \<Rightarrow>
          let m = metrics st;
              m = m\<lparr>encodedBytes := encodedBytes m + length buf\<rparr>;
              st = st\<lparr>metrics := m, world := backoff_New ev (world st)\<rparr>
          in sendLoop ev ops c tenantID b buf entriesCount st)"

section \<open>The dispatcher\<close>

text \<open>
  \<^verbatim>\<open>runSendSide\<close> (lines 347-423) and \<^verbatim>\<open>replayWAL\<close> hand batches to \<^verbatim>\<open>sendBatch\<close> and
  never read what it returns. Their models record each call, in order, together with
  the increments \<^verbatim>\<open>runSendSide\<close> itself makes to the dropped-entries counter.
\<close>

datatype 'b effect = SendBatch string 'b | DroppedEntriesInc

text \<open>
  What the \<^verbatim>\<open>select\<close> of the loop can receive: an entry from the channel (with the
  clock reading at that moment), the closing of the channel, a tick of the timer.
\<close>

datatype event = Recv api_Entry int | Closed | Tick int

text \<open>
  The local state of \<^verbatim>\<open>runSendSide\<close>. The Go map \<^verbatim>\<open>batches\<close> is an association list
  with distinct keys; a \<^verbatim>\<open>range\<close> over it visits the keys in the order of the list,
  which is one of the orders Go may choose. \<open>running\<close> is false once the function has
  returned.
\<close>

record 'b send_side =
  batches :: "(string \<times> 'b) list"
  trace :: "'b effect list"
  running :: bool

definition send_side_init :: "'b send_side" where
  "send_side_init = \<lparr>batches = [], trace = [], running = True\<rparr>"

text \<open>The deferred function of lines 364-372 sends every pending batch.\<close>

definition deferred :: "'b send_side \<Rightarrow> 'b send_side" where
  "deferred st =
     st\<lparr>trace := trace st @ map (\<lambda>(tenantID, b). SendBatch tenantID b) (batches st),
        running := False\<rparr>"

text \<open>
  Lines 376-409, the case of a received entry. A batch is a pointer in the source, so
  whatever \<^verbatim>\<open>add\<close> does to the batch is seen through the map.
\<close>

definition recvEntry :: "'b batch_ops \<Rightarrow> client \<Rightarrow> 'b send_side \<Rightarrow> api_Entry \<Rightarrow> int \<Rightarrow> 'b send_side" where
  "recvEntry ops c st e0 now =
     (case processEntry c e0 of
        (e, tenantID) \<Rightarrow>
          (case map_of (batches st) tenantID of
             None \<Rightarrow>
               let b = client_newBatch ops c tenantID now;
                   (b, err) = add ops b e
               in st\<lparr>batches := AList.update tenantID b (batches st)\<rparr>
           | Some batch \<Rightarrow>
               if sizeBytesAfter ops batch e > BatchSize (cfg c) then
                 let st = st\<lparr>trace := trace st @ [SendBatch tenantID batch]\<rparr>;
                     new = client_newBatch ops c tenantID now;
                     (new, err) = add ops new e
                 in st\<lparr>batches := AList.update tenantID new (batches st)\<rparr>
               else
                 let (batch, err) = add ops batch e;
                     st = st\<lparr>batches := AList.update tenantID batch (batches st)\<rparr>
                 in if err \<noteq> None
                    then deferred (st\<lparr>trace := trace st @ [DroppedEntriesInc]\<rparr>)
                    else st))"

text \<open>
  Lines 410-420, the case of a tick: the loop over a snapshot of the map sends and
  deletes every batch whose age has reached \<^verbatim>\<open>BatchWait\<close>.
\<close>

fun maxWaitCheck ::
  "'b batch_ops \<Rightarrow> client \<Rightarrow> int \<Rightarrow> (string \<times> 'b) list \<Rightarrow> 'b send_side \<Rightarrow> 'b send_side" where
  "maxWaitCheck ops c now [] st = st"
| "maxWaitCheck ops c now ((tenantID, batch) # rest) st =
     (if age ops batch now < BatchWait (cfg c) then maxWaitCheck ops c now rest st
      else maxWaitCheck ops c now rest
             (st\<lparr>trace := trace st @ [SendBatch tenantID batch],
                 batches := AList.delete tenantID (batches st)\<rparr>))"

definition step :: "'b batch_ops \<Rightarrow> client \<Rightarrow> 'b send_side \<Rightarrow> event \<Rightarrow> 'b send_side" where
  "step ops c st ev =
     (case ev of
        Recv e now \<Rightarrow> recvEntry ops c st e now
      | Closed \<Rightarrow> deferred st
      | Tick now \<Rightarrow> maxWaitCheck ops c now (batches st) st)"

text \<open>
  The loop, run on the events it receives, in order. It stops at the first event that
  makes the function return; a list of events without such an event leaves the loop
  waiting (\<open>running\<close> still true), its open batches unsent.
\<close>

fun runSendSide :: "'b batch_ops \<Rightarrow> client \<Rightarrow> 'b send_side \<Rightarrow> event list \<Rightarrow> 'b send_side" where
  "runSendSide ops c st [] = st"
| "runSendSide ops c st (ev # evs) =
     (if running st then runSendSide ops c (step ops c st ev) evs else st)"

text \<open>The batches handed to \<^verbatim>\<open>sendBatch\<close>, with their tenants, in order.\<close>

fun sends :: "'b effect list \<Rightarrow> (string \<times> 'b) list" where
  "sends [] = []"
| "sends (SendBatch tenantID b # es) = (tenantID, b) # sends es"
| "sends (DroppedEntriesInc # es) = sends es"

section \<open>Replay of the write-ahead log at startup\<close>

text \<open>
  A record of the log after \<^verbatim>\<open>ingester.DecodeWALRecord\<close> has filled it: the series (a
  reference and the label set \<^verbatim>\<open>util.MapToModelLabelSet\<close> makes of its labels) and the
  entries by reference. A record that fails to decode is logged and then used as the
  decoder left it, so the warning changes nothing here.
\<close>

record WALRecord =
  Series :: "(nat \<times> LabelSet) list"
  RefEntries :: "(nat \<times> logproto_Entry list) list"

text \<open>What \<^verbatim>\<open>os.Stat\<close> finds at a path.\<close>

datatype stat_result = StatNotExist | StatError | StatFile | StatDir

text \<open>
  The file system and the log reader, which are not part of this file: \<^verbatim>\<open>path.Join\<close>,
  \<^verbatim>\<open>os.Stat\<close>, \<^verbatim>\<open>filepath.Glob\<close> (its error is ignored by the source) and
  \<^verbatim>\<open>wal.NewWalReader\<close> with the records the reader then yields (\<open>None\<close> is its error).
\<close>

record wal_env =
  path_Join :: "string \<Rightarrow> string \<Rightarrow> string"
  Stat :: "string \<Rightarrow> stat_result"
  Glob :: "string \<Rightarrow> string list"
  NewWalReader :: "string \<Rightarrow> WALRecord list option"

text \<open>
  Lines 305-324, the loop over the entries of one sample record. The \<^verbatim>\<open>break\<close> of line
  319 leaves this loop: the entries after the one that opened the new batch are not
  read.
\<close>

fun replayEntries ::
  "'b batch_ops \<Rightarrow> client \<Rightarrow> string \<Rightarrow> int \<Rightarrow> LabelSet \<Rightarrow> 'b \<Rightarrow> logproto_Entry list
     \<Rightarrow> 'b \<times> 'b effect list" where
  "replayEntries ops c tenantID now l b [] = (b, [])"
| "replayEntries ops c tenantID now l b (e # es) =
     (let entry = \<lparr>Labels = l, Entry = e\<rparr> in
      if sizeBytesAfter ops b entry > BatchSize (cfg c) then
        let new = client_newBatch ops c tenantID now;
            new = replay ops new entry
        in (new, [SendBatch tenantID b])
      else replayEntries ops c tenantID now l (replay ops b entry) es)"

text \<open>Lines 302-327, the loop over the sample records of one log record.\<close>

fun replaySamples ::
  "'b batch_ops \<Rightarrow> client \<Rightarrow> string \<Rightarrow> int \<Rightarrow> (nat \<rightharpoonup> LabelSet) \<Rightarrow> 'b
     \<Rightarrow> (nat \<times> logproto_Entry list) list \<Rightarrow> 'b \<times> 'b effect list" where
  "replaySamples ops c tenantID now seriesRecs b [] = (b, [])"
| "replaySamples ops c tenantID now seriesRecs b ((ref, es) # rest) =
     (case seriesRecs ref of
        Some l \<Rightarrow>
          (case replayEntries ops c tenantID now l b es of
             (b', tr) \<Rightarrow>
               (case replaySamples ops c tenantID now seriesRecs b' rest of
                  (b'', tr') \<Rightarrow> (b'', tr @ tr')))
      | None \<Rightarrow> replaySamples ops c tenantID now seriesRecs b rest)"

text \<open>Lines 292-328, the loop over the records the reader yields.\<close>

fun replayRecords ::
  "'b batch_ops \<Rightarrow> client \<Rightarrow> string \<Rightarrow> int \<Rightarrow> (nat \<rightharpoonup> LabelSet) \<Rightarrow> 'b
     \<Rightarrow> WALRecord list \<Rightarrow> 'b \<times> 'b effect list" where
  "replayRecords ops c tenantID now seriesRecs b [] = (b, [])"
| "replayRecords ops c tenantID now seriesRecs b (rec # recs) =
     (let seriesRecs = foldl (\<lambda>m (ref, l). m(ref \<mapsto> l)) seriesRecs (Series rec) in
      case replaySamples ops c tenantID now seriesRecs b (RefEntries rec) of
        (b', tr) \<Rightarrow>
          (case replayRecords ops c tenantID now seriesRecs b' recs of
             (b'', tr') \<Rightarrow> (b'', tr @ tr')))"

text \<open>The tenant of a directory: what follows its last slash (line 281).\<close>

definition tenantOfDir :: "string \<Rightarrow> string" where
  "tenantOfDir tenantDir = rev (takeWhile (\<lambda>ch. ch \<noteq> CHR ''/'') (rev tenantDir))"

text \<open>Lines 280-330, the loop over the tenant directories.\<close>

fun replayTenants ::
  "'b batch_ops \<Rightarrow> wal_env \<Rightarrow> client \<Rightarrow> int \<Rightarrow> string list \<Rightarrow> exit \<times> 'b effect list" where
  "replayTenants ops fs c now [] = (Returns None, [])"
| "replayTenants ops fs c now (tenantDir # rest) =
     (let tenantID = tenantOfDir tenantDir in
      case NewWalReader fs tenantDir of
        None \<Rightarrow> (Returns (Some ErrNewWalReader), [])
      | Some recs \<Rightarrow>
          (case replayRecords ops c tenantID now Map.empty (newBatch ops 0 now) recs of
             (b, tr) \<Rightarrow>
               (case replayTenants ops fs c now rest of
                  (r, tr') \<Rightarrow> (r, tr @ [SendBatch tenantID b] @ tr'))))"

text \<open>
  Lines 269-275: \<^verbatim>\<open>os.Stat\<close> on each match, its error dropped; \<^verbatim>\<open>f.IsDir()\<close> on the nil
  \<^verbatim>\<open>FileInfo\<close> of a failed \<^verbatim>\<open>Stat\<close> panics. \<open>None\<close> stands for that panic.
\<close>

fun tenantDirsOf :: "wal_env \<Rightarrow> string list \<Rightarrow> string list option" where
  "tenantDirsOf fs [] = Some []"
| "tenantDirsOf fs (match # rest) =
     (case Stat fs match of
        StatDir \<Rightarrow> map_option (\<lambda>ds. match # ds) (tenantDirsOf fs rest)
      | StatFile \<Rightarrow> tenantDirsOf fs rest
      | StatNotExist \<Rightarrow> None
      | StatError \<Rightarrow> None)"

text \<open>\<^verbatim>\<open>replayWAL\<close> (lines 257-332); every batch it creates is created at \<open>now\<close>.\<close>

definition replayWAL :: "'b batch_ops \<Rightarrow> wal_env \<Rightarrow> client \<Rightarrow> int \<Rightarrow> exit \<times> 'b effect list" where
  "replayWAL ops fs c now =
     (let clientBaseWALDir = path_Join fs (WAL_Dir (cfg c)) (name c) in
      if Stat fs clientBaseWALDir = StatNotExist then (Returns (Some ErrNotExist), [])
      else
        let matches = Glob fs (clientBaseWALDir @ ''/*'') in
        case tenantDirsOf fs matches of
          None \<Rightarrow> (Panics, [])
        | Some tenantDirs \<Rightarrow>
            if length matches < 1 then (Returns None, [])
            else replayTenants ops fs c now tenantDirs)"

section \<open>The consumer of a tenant's log\<close>

text \<open>
  \<^verbatim>\<open>clientConsumer\<close> (lines 670-677), without its logger and its channel, which the
  modelled methods do not use. \<open>sendBatchFunc\<close> is the field \<^verbatim>\<open>sendBatch\<close> and tells what
  the call returns for a batch; \<open>segmentDeleter\<close> tells what \<^verbatim>\<open>DeleteSegment\<close> returns
  for a segment number.
\<close>

record 'b clientConsumer =
  series :: "nat \<rightharpoonup> LabelSet"
  currentBatch :: 'b
  sendBatchFunc :: "'b \<Rightarrow> error option"
  segmentDeleter :: "int \<Rightarrow> error option"

text \<open>The calls a method of the consumer makes on its two collaborators, in order.\<close>

datatype 'b consumer_call = CallSendBatch 'b | CallDeleteSegment int

definition newClientConsumer ::
  "'b batch_ops \<Rightarrow> int \<Rightarrow> ('b \<Rightarrow> error option) \<Rightarrow> (int \<Rightarrow> error option) \<Rightarrow> 'b clientConsumer" where
  "newClientConsumer ops now sendBatch' segmentDeleter' =
     \<lparr>series = Map.empty, currentBatch = newBatch ops 0 now,
      sendBatchFunc = sendBatch', segmentDeleter = segmentDeleter'\<rparr>"

definition ConsumeSeries :: "'b clientConsumer \<Rightarrow> nat \<times> LabelSet \<Rightarrow> 'b clientConsumer" where
  "ConsumeSeries c s = (case s of (ref, l) \<Rightarrow> c\<lparr>series := (series c)(ref \<mapsto> l)\<rparr>)"

definition ConsumeEntries ::
  "'b batch_ops \<Rightarrow> 'b clientConsumer \<Rightarrow> nat \<times> logproto_Entry list \<Rightarrow> 'b clientConsumer" where
  "ConsumeEntries ops c samples =
     (case samples of
        (ref, es) \<Rightarrow>
          (case series c ref of
             Some l \<Rightarrow>
               c\<lparr>currentBatch :=
                    foldl (\<lambda>b e. replay ops b \<lparr>Labels = l, Entry = e\<rparr>) (currentBatch c) es\<rparr>
           | None \<Rightarrow> c))"

text \<open>
  \<^verbatim>\<open>SegmentEnd\<close> (lines 711-719): the consumer as the call leaves it, and the calls made.
\<close>

definition SegmentEnd :: "'b clientConsumer \<Rightarrow> int \<Rightarrow> 'b clientConsumer \<times> 'b consumer_call list" where
  "SegmentEnd c segmentNum =
     (case sendBatchFunc c (currentBatch c) of
        None \<Rightarrow>
          (case segmentDeleter c segmentNum of
             None \<Rightarrow> (c, [CallSendBatch (currentBatch c), CallDeleteSegment segmentNum])
           | Some err \<Rightarrow> (c, [CallSendBatch (currentBatch c), CallDeleteSegment segmentNum]))
      | Some err \<Rightarrow> (c, [CallSendBatch (currentBatch c)]))"

section \<open>Concrete inputs\<close>

text \<open>
  A client, a rendering of label sets (by their \<open>job\<close> label), an encoding, and a
  scripted world: the responses still to come, the number of waits so far and the
  clock, which every reading moves on by ten. \<open>scripted k\<close> lets the backoff go on until
  \<open>k\<close> waits have been made; its parser knows the two label strings of the rendering.
\<close>

definition client0 :: client where
  "client0 =
     \<lparr>name = ''c0'',
      cfg = \<lparr>cfg_URL = ''http://loki/push'', cfg_Host = ''loki'', TenantID = ''static'',
             BatchSize = 10, BatchWait = 1000, WAL_Dir = ''/wal''\<rparr>,
      externalLabels = Map.empty, streamLagLabels = [''job'']\<rparr>"

definition render0 :: "LabelSet \<Rightarrow> string" where
  "render0 l = (case l ''job'' of Some v \<Rightarrow> ''job='' @ v | None \<Rightarrow> ''none'')"

definition marshal0 :: "logproto_Stream list \<Rightarrow> buffer option" where
  "marshal0 ss = Some (concat (map StreamLabels ss))"

definition scripted :: "nat \<Rightarrow> (do_result list \<times> nat \<times> int) env" where
  "scripted k =
     \<lparr>UserAgent = ''promtail/0'',
      NewRequest_fails = (\<lambda>u. u = []),
      Do = (\<lambda>req w. case w of (rs, i, t) \<Rightarrow>
              (case rs of [] \<Rightarrow> (DoError, ([], i, t)) | r # rs' \<Rightarrow> (r, (rs', i, t)))),
      backoff_New = (\<lambda>w. case w of (rs, i, t) \<Rightarrow> (rs, 0, t)),
      backoff_Wait = (\<lambda>w. case w of (rs, i, t) \<Rightarrow> (rs, Suc i, t)),
      backoff_Ongoing = (\<lambda>w. case w of (rs, i, t) \<Rightarrow> i < k),
      ParseMetric = (\<lambda>s. if s = ''job=x'' then Some [(''job'', ''x'')]
                          else if s = ''job=y'' then Some [(''job'', ''y'')] else None),
      Now = (\<lambda>w. case w of (rs, i, t) \<Rightarrow> (t, (rs, i, t + 10)))\<rparr>"

definition sender0 :: "do_result list \<Rightarrow> (do_result list \<times> nat \<times> int) sender" where
  "sender0 rs =
     \<lparr>metrics = \<lparr>encodedBytes = 0, sentBytes = 0, droppedBytes = 0, sentEntries = 0,
                 droppedEntries = 0, requestDuration = [], batchRetries = 0, streamLag = []\<rparr>,
      requests = [], world = (rs, 0, 100)\<rparr>"

definition entry0 :: "string \<Rightarrow> int \<Rightarrow> string \<Rightarrow> api_Entry" where
  "entry0 job t l = \<lparr>Labels = [''job'' \<mapsto> job], Entry = \<lparr>Timestamp = t, Line = l\<rparr>\<rparr>"

definition ops0 :: "batch batch_ops" where
  "ops0 = spec_batch render0 marshal0"

text \<open>A batch holding one entry of five bytes, and a consumer that has replayed it.\<close>

definition batch0 :: batch where
  "batch0 = batch_replay render0 (batch_new 0 0) (entry0 ''x'' 7 ''hello'')"

definition consumer0 :: "batch clientConsumer" where
  "consumer0 =
     ConsumeEntries ops0
       (ConsumeSeries (newClientConsumer ops0 0 (\<lambda>b. None) (\<lambda>n. None)) (1, [''job'' \<mapsto> ''x'']))
       (1, [\<lparr>Timestamp = 7, Line = ''hello''\<rparr>])"

text \<open>An encoding that fails, and a batch whose one stream has a label string the
  scripted parser rejects.\<close>

definition marshal_fails :: "logproto_Stream list \<Rightarrow> buffer option" where
  "marshal_fails ss = None"

definition batch1 :: batch where
  "batch1 = batch_replay render0 (batch_new 0 0) (entry0 ''z'' 7 ''hello'')"

definition send_fails :: "batch \<Rightarrow> error option" where
  "send_fails b = Some ErrDo"

section \<open>What the size rule is about\<close>

text \<open>
  The size of the content of a batch (the lengths of the lines of its entries), and the
  rule of the spec: a batch is within \<open>S\<close> when its size does not exceed \<open>S\<close>, or it
  holds a single entry.
\<close>

definition content_size :: "batch \<Rightarrow> int" where
  "content_size b = sum_list (map (\<lambda>e. int (length (Line e))) (batch_entries b))"

definition within_limit :: "int \<Rightarrow> batch \<Rightarrow> bool" where
  "within_limit S b = (bytes b \<le> S \<or> length (batch_entries b) = 1)"

text \<open>
  The entries of one stream of a batch; what a trace has sent of a stream of a tenant;
  what the open batch of the tenant holds of it while the loop runs; what the events
  have brought for it. Once the channel is closed no event is received any more.
\<close>

definition stream_entries :: "string \<Rightarrow> batch \<Rightarrow> logproto_Entry list" where
  "stream_entries k b = (case map_of (streams_of b) k of Some s \<Rightarrow> Entries s | None \<Rightarrow> [])"

definition sent_entries :: "string \<Rightarrow> string \<Rightarrow> batch effect list \<Rightarrow> logproto_Entry list" where
  "sent_entries tenantID k tr =
     concat (map (\<lambda>(t, b). if t = tenantID then stream_entries k b else []) (sends tr))"

definition open_entries :: "string \<Rightarrow> string \<Rightarrow> batch send_side \<Rightarrow> logproto_Entry list" where
  "open_entries tenantID k st =
     (if running st
      then (case map_of (batches st) tenantID of Some b \<Rightarrow> stream_entries k b | None \<Rightarrow> [])
      else [])"

fun received_entries ::
  "client \<Rightarrow> (LabelSet \<Rightarrow> string) \<Rightarrow> string \<Rightarrow> string \<Rightarrow> event list \<Rightarrow> logproto_Entry list" where
  "received_entries c render tenantID k [] = []"
| "received_entries c render tenantID k (Recv e0 now # evs) =
     (case processEntry c e0 of
        (e, t) \<Rightarrow> (if t = tenantID \<and> render (Labels e) = k then [Entry e] else []))
     @ received_entries c render tenantID k evs"
| "received_entries c render tenantID k (Tick now # evs) = received_entries c render tenantID k evs"
| "received_entries c render tenantID k (Closed # evs) = []"

text \<open>A batch whose \<^verbatim>\<open>add\<close> always fails, to run the dispatcher on a failing \<^verbatim>\<open>add\<close>.\<close>

definition add_fails :: "batch \<Rightarrow> api_Entry \<Rightarrow> batch \<times> error option" where
  "add_fails b e = (b, Some ErrBatchAdd)"

definition ops_add_fails :: "batch batch_ops" where
  "ops_add_fails = ops0\<lparr>add := add_fails\<rparr>"

text \<open>
  What holds of every batch the dispatcher has sent or holds open: it was made without
  a ceiling on streams, its size is the size of its content, and it is within the limit.
\<close>

definition good_batch :: "int \<Rightarrow> batch \<Rightarrow> bool" where
  "good_batch S b = (maxStreams b = 0 \<and> bytes b = content_size b \<and> within_limit S b)"

definition send_side_inv :: "int \<Rightarrow> batch send_side \<Rightarrow> bool" where
  "send_side_inv S st =
     (list_all (\<lambda>(t, b). good_batch S b \<and> batch_entries b \<noteq> []) (batches st) \<and>
      list_all (\<lambda>(t, b). good_batch S b) (sends (trace st)) \<and>
      distinct (map fst (batches st)))"

section \<open>What the claims about the sender speak of\<close>

text \<open>
  The statuses after which the source goes on to a retry: no positive status (\<^verbatim>\<open>send\<close>
  gives \<open>-1\<close> when there is no response), 429, and the statuses from 500 to 599.
\<close>

definition retryable :: "int \<Rightarrow> bool" where
  "retryable status = (status \<le> 0 \<or> status = 429 \<or> status sdiv 100 = 5)"

text \<open>
  A stream whose lag gauge can be set: its label string parses and it has an entry.
  \<open>lagSets\<close> lists what the gauge is set to for such streams, in order, reading the
  clock once for each: the labels of the gauge and the time since the last entry of
  the stream; it also gives the world after the readings. \<open>lagExit\<close> tells how the loop
  over the streams ends: at the first stream whose gauge cannot be set, if there is one.
\<close>

definition settable :: "'w env \<Rightarrow> logproto_Stream \<Rightarrow> bool" where
  "settable ev s = (ParseMetric ev (StreamLabels s) \<noteq> None \<and> Entries s \<noteq> [])"

fun lagSets ::
  "'w env \<Rightarrow> client \<Rightarrow> 'w \<Rightarrow> logproto_Stream list \<Rightarrow> (LabelSet \<times> int) list \<times> 'w" where
  "lagSets ev c w [] = ([], w)"
| "lagSets ev c w (s # ss) =
     (case Now ev w of
        (now, w') \<Rightarrow>
          (case lagSets ev c w' ss of
             (sets, w'') \<Rightarrow>
               ((lagLabels c (the (ParseMetric ev (StreamLabels s))),
                 Sub now (Timestamp (last (Entries s)))) # sets, w'')))"

definition lagExit :: "'w env \<Rightarrow> logproto_Stream list \<Rightarrow> exit" where
  "lagExit ev ss =
     (case dropWhile (settable ev) ss of
        [] \<Rightarrow> Returns None
      | s # rest \<Rightarrow>
          if ParseMetric ev (StreamLabels s) = None then Returns (Some ErrParseMetric) else Panics)"

section \<open>Properties of one HTTP attempt\<close>

lemma send_cases:
  "send ev c tenantID buf w = ((status, err), rs, w') \<Longrightarrow>
     (status = - 1 \<and> err = Some ErrNewRequest \<and> rs = [] \<and> w' = w) \<or>
     (status = - 1 \<and> err = Some ErrDo \<and> rs = [pushRequest ev c tenantID buf]) \<or>
     (err = (if status sdiv 100 \<noteq> 2 then Some (ErrStatus status) else None)
        \<and> rs = [pushRequest ev c tenantID buf])"
  by (auto simp: send_def Let_def split: if_splits prod.splits do_result.splits)

lemma send_2xx:
  "\<not> NewRequest_fails ev (cfg_URL (cfg c)) \<Longrightarrow>
   Do ev (pushRequest ev c tenantID buf) w0 = (DoResponse code, w) \<Longrightarrow> code sdiv 100 = 2 \<Longrightarrow>
   send ev c tenantID buf w0 = ((code, None), [pushRequest ev c tenantID buf], w)"
  by (simp add: send_def Let_def)

lemma pushRequest_header:
  "Header (pushRequest ev c tenantID buf) ''X-Scope-OrgID'' =
     (if tenantID = [] then None else Some tenantID)"
  by (simp add: pushRequest_def Let_def)

lemma send_requests:
  "send ev c tenantID buf w = (r, rs, w') \<Longrightarrow> set rs \<subseteq> {pushRequest ev c tenantID buf}"
  by (auto simp: send_def Let_def split: if_splits prod.splits do_result.splits)

text \<open>One turn of the loop, by the outcome of its attempt.\<close>

lemma attempt_success:
  assumes "Now ev (world st) = (start, w0)"
      and "send ev c tenantID buf w0 = ((status, None), rs, w1)"
      and "Now ev w1 = (fin, w2)"
      and "updateLag ev c (streams ops b)
             ((metrics st)\<lparr>requestDuration := requestDuration (metrics st) @ [(status, Sub fin start)],
                           sentBytes := sentBytes (metrics st) + length buf,
                           sentEntries := sentEntries (metrics st) + n\<rparr>) w2 = (r, m', w3)"
  shows "attempt ev ops c tenantID b buf n st =
           Return r (st\<lparr>metrics := m', requests := requests st @ rs, world := w3\<rparr>)"
  using assms by (simp add: attempt_def Let_def)

lemma attempt_failure:
  assumes "Now ev (world st) = (start, w0)"
      and "send ev c tenantID buf w0 = ((status, Some err), rs, w1)"
      and "Now ev w1 = (fin, w2)"
  shows "attempt ev ops c tenantID b buf n st =
           (let failed = st\<lparr>metrics := (metrics st)
                              \<lparr>requestDuration := requestDuration (metrics st) @ [(status, Sub fin start)]\<rparr>,
                            requests := requests st @ rs, world := w2\<rparr>;
                waited = failed\<lparr>metrics := (metrics failed)
                                  \<lparr>batchRetries := batchRetries (metrics failed) + 1\<rparr>,
                                world := backoff_Wait ev w2\<rparr>
            in if status > 0 \<and> status \<noteq> 429 \<and> status sdiv 100 \<noteq> 5 then Break (Some err) failed
               else if backoff_Ongoing ev (backoff_Wait ev w2) then Again waited
               else Break (Some err) waited)"
  using assms by (simp add: attempt_def Let_def del: One_nat_def)

lemma attempt_requests:
  assumes "attempt ev ops c tenantID b buf n st = t"
  shows "(case t of
      Return r st' \<Rightarrow>
        \<exists>new. requests st' = requests st @ new \<and> set new \<subseteq> {pushRequest ev c tenantID buf}
    | Break e st' \<Rightarrow>
        \<exists>new. requests st' = requests st @ new \<and> set new \<subseteq> {pushRequest ev c tenantID buf}
    | Again st' \<Rightarrow>
        \<exists>new. requests st' = requests st @ new \<and> set new \<subseteq> {pushRequest ev c tenantID buf})"
proof -
  obtain start w0 where n0: "Now ev (world st) = (start, w0)" by (metis prod.exhaust)
  obtain status err rs w1 where s: "send ev c tenantID buf w0 = ((status, err), rs, w1)"
    by (metis prod.exhaust)
  obtain fin w2 where n1: "Now ev w1 = (fin, w2)" by (metis prod.exhaust)
  from send_requests[OF s] have rs: "set rs \<subseteq> {pushRequest ev c tenantID buf}" .
  show ?thesis
  proof (cases err)
    case None
    obtain r m' w3 where u: "updateLag ev c (streams ops b)
             ((metrics st)\<lparr>requestDuration := requestDuration (metrics st) @ [(status, Sub fin start)],
                           sentBytes := sentBytes (metrics st) + length buf,
                           sentEntries := sentEntries (metrics st) + n\<rparr>) w2 = (r, m', w3)"
      by (metis prod.exhaust)
    from attempt_success[OF n0 s[unfolded None] n1 u] assms rs show ?thesis by auto
  next
    case (Some e)
    from attempt_failure[OF n0 s[unfolded Some] n1, of ops b n] assms rs show ?thesis
      by (auto simp: Let_def split: if_splits)
  qed
qed

lemma afterLoop_requests: "requests (snd (afterLoop buf n err st)) = requests st"
  by (simp add: afterLoop_def)

text \<open>
  Every request \<^verbatim>\<open>sendBatch\<close> makes in its loop is the one \<^verbatim>\<open>send\<close> builds for the tenant
  and the buffer: by induction on the turns of the loop.
\<close>

lemma sendLoop_requests:
  assumes "sendLoop ev ops c tenantID b buf n st = Some y"
  shows "\<exists>new. requests (snd y) = requests st @ new \<and> set new \<subseteq> {pushRequest ev c tenantID buf}"
proof (rule sendLoop.raw_induct[where P = "\<lambda>ev ops c tenantID b buf n st y.
         \<exists>new. requests (snd y) = requests st @ new \<and> set new \<subseteq> {pushRequest ev c tenantID buf}",
         OF _ assms], goal_cases)
  case (1 f ev ops c tenantID b buf n st y)
  show ?case
  proof (cases "attempt ev ops c tenantID b buf n st")
    case (Return r st')
    with 1(2) attempt_requests[OF Return] show ?thesis by auto
  next
    case (Break e st')
    with 1(2) attempt_requests[OF Break] show ?thesis by (auto simp: afterLoop_requests)
  next
    case (Again st')
    with 1(2) have "f ev ops c tenantID b buf n st' = Some y" by simp
    from 1(1)[OF this] obtain new where n: "requests (snd y) = requests st' @ new"
       "set new \<subseteq> {pushRequest ev c tenantID buf}" by blast
    from attempt_requests[OF Again] obtain new0 where "requests st' = requests st @ new0"
       "set new0 \<subseteq> {pushRequest ev c tenantID buf}" by auto
    with n show ?thesis by (intro exI[of _ "new0 @ new"]) auto
  qed
qed

text \<open>\<^verbatim>\<open>sendBatch\<close> is the loop, run on what \<^verbatim>\<open>encode\<close> gave.\<close>

lemma sendBatch_encoded:
  "encode ops b = Inr (buf, n) \<Longrightarrow>
   sendBatch ev ops c tenantID b st =
     sendLoop ev ops c tenantID b buf n
       (st\<lparr>metrics := (metrics st)\<lparr>encodedBytes := encodedBytes (metrics st) + length buf\<rparr>,
           world := backoff_New ev (world st)\<rparr>)"
  by (simp add: sendBatch_def Let_def)

lemma batch0_eq:
  "batch0 = \<lparr>streams_of = [(''job=x'', \<lparr>StreamLabels = ''job=x'',
                                        Entries = [\<lparr>Timestamp = 7, Line = ''hello''\<rparr>]\<rparr>)],
             bytes = 5, createdAt = 0, maxStreams = 0\<rparr>"
  by (simp add: batch0_def batch_replay_def batch_new_def entry0_def render0_def Let_def)

lemma encode_batch0: "encode ops0 batch0 = Inr (''job=x'', 1)"
  by (simp add: ops0_def spec_batch_def batch_encode_def marshal0_def batch0_eq batch_entries_def)

lemma streams_batch0:
  "streams ops0 batch0 =
     [\<lparr>StreamLabels = ''job=x'', Entries = [\<lparr>Timestamp = 7, Line = ''hello''\<rparr>]\<rparr>]"
  by (simp add: ops0_def spec_batch_def batch0_eq)

lemma Sub_small: "minDuration \<le> t - u \<Longrightarrow> t - u \<le> maxDuration \<Longrightarrow> Sub t u = t - u"
  by (simp add: Sub_def)

text \<open>
  Two runs of \<^verbatim>\<open>sendBatch\<close> on the scripted world. A 400 ends the call at once, with no
  retry counted and the batch counted as dropped; a 500 followed by a 200 is retried
  once and succeeds.
\<close>

lemma sendBatch_400:
  "sendBatch (scripted 3) ops0 client0 ''t'' batch0 (sender0 [DoResponse 400]) =
     Some (Returns (Some (ErrStatus 400)),
       \<lparr>metrics = \<lparr>encodedBytes = 5, sentBytes = 0, droppedBytes = 5, sentEntries = 0,
                   droppedEntries = 1, requestDuration = [(400, 10)], batchRetries = 0,
                   streamLag = []\<rparr>,
        requests = [pushRequest (scripted 3) client0 ''t'' ''job=x''], world = ([], 0, 120)\<rparr>)"
  apply (simp add: sendBatch_encoded[OF encode_batch0])
  apply (subst sendLoop.simps)
  apply (simp add: attempt_def send_def scripted_def client0_def sender0_def afterLoop_def Let_def
      signed_divide_int_def Sub_def minDuration_def maxDuration_def)
  done

lemma sendBatch_500_200:
  "sendBatch (scripted 3) ops0 client0 ''t'' batch0 (sender0 [DoResponse 500, DoResponse 200]) =
     Some (Returns None,
       \<lparr>metrics = \<lparr>encodedBytes = 5, sentBytes = 5, droppedBytes = 0, sentEntries = 1,
                   droppedEntries = 0, requestDuration = [(500, 10), (200, 10)], batchRetries = 1,
                   streamLag = [(lagLabels client0 [(''job'', ''x'')], 133)]\<rparr>,
        requests = [pushRequest (scripted 3) client0 ''t'' ''job=x'',
                    pushRequest (scripted 3) client0 ''t'' ''job=x''],
        world = ([], 1, 150)\<rparr>)"
  apply (simp add: sendBatch_encoded[OF encode_batch0])
  apply (subst sendLoop.simps)
  apply (simp add: attempt_def send_def scripted_def client0_def sender0_def afterLoop_def Let_def
      signed_divide_int_def Sub_def minDuration_def maxDuration_def)
  apply (subst sendLoop.simps)
  apply (simp add: attempt_def send_def scripted_def client0_def sender0_def afterLoop_def Let_def
      signed_divide_int_def streams_batch0 Sub_def minDuration_def maxDuration_def)
  done

text \<open>
  C9. Every request of a delivery attempt carries the header \<^verbatim>\<open>X-Scope-OrgID\<close> with the
  tenant as its value when the tenant is not the empty string, and no such header when
  it is: for the request \<^verbatim>\<open>send\<close> builds, for the requests one call of \<^verbatim>\<open>send\<close> makes, and
  for every request \<^verbatim>\<open>sendBatch\<close> makes over all its attempts.
\<close>

theorem send_tenant_header:
  "Header (pushRequest ev c tenantID buf) ''X-Scope-OrgID'' =
     (if tenantID = [] then None else Some tenantID) \<and>
   (send ev c tenantID buf w = (r, rs, w') \<longrightarrow>
      (\<forall>req \<in> set rs. Header req ''X-Scope-OrgID'' = (if tenantID = [] then None else Some tenantID))) \<and>
   (sendBatch ev ops c tenantID b st = Some y \<longrightarrow>
      (\<exists>new. requests (snd y) = requests st @ new \<and>
         (\<forall>req \<in> set new. Header req ''X-Scope-OrgID'' = (if tenantID = [] then None else Some tenantID))))"
proof (intro conjI impI)
  show "Header (pushRequest ev c tenantID buf) ''X-Scope-OrgID'' =
     (if tenantID = [] then None else Some tenantID)"
    by (rule pushRequest_header)
next
  assume "send ev c tenantID buf w = (r, rs, w')"
  from send_requests[OF this]
  show "\<forall>req \<in> set rs. Header req ''X-Scope-OrgID'' = (if tenantID = [] then None else Some tenantID)"
    using pushRequest_header[of ev c tenantID buf] by auto
next
  assume sb: "sendBatch ev ops c tenantID b st = Some y"
  show "\<exists>new. requests (snd y) = requests st @ new \<and>
         (\<forall>req \<in> set new. Header req ''X-Scope-OrgID'' = (if tenantID = [] then None else Some tenantID))"
  proof (cases "encode ops b")
    case (Inl err)
    with sb have "requests (snd y) = requests st @ []" by (auto simp: sendBatch_def)
    then show ?thesis by (intro exI[of _ "[]"]) simp
  next
    case (Inr p)
    obtain buf' n where p: "p = (buf', n)" by (cases p)
    from sb Inr p have "sendLoop ev ops c tenantID b buf' n
        (st\<lparr>metrics := (metrics st)\<lparr>encodedBytes := encodedBytes (metrics st) + length buf'\<rparr>,
            world := backoff_New ev (world st)\<rparr>) = Some y"
      by (simp add: sendBatch_def Let_def)
    from sendLoop_requests[OF this] obtain new where
      "requests (snd y) = requests st @ new" "set new \<subseteq> {pushRequest ev c tenantID buf'}"
      by auto
    then show ?thesis
      using pushRequest_header[of ev c tenantID buf'] by (intro exI[of _ new]) auto
  qed
qed

theorem send_tenant_header_witness:
  "Header (pushRequest (scripted 3) client0 ''t'' ''job=x'') ''X-Scope-OrgID'' = Some ''t'' \<and>
   Header (pushRequest (scripted 3) client0 [] ''job=x'') ''X-Scope-OrgID'' = None \<and>
   send (scripted 3) client0 ''t'' ''job=x'' ([DoResponse 200], 0, 100) =
     ((200, None), [pushRequest (scripted 3) client0 ''t'' ''job=x''], ([], 0, 100)) \<and>
   map_option (\<lambda>y. (length (requests (snd y)),
                     list_all (\<lambda>req. Header req ''X-Scope-OrgID'' = Some ''t'') (requests (snd y))))
     (sendBatch (scripted 3) ops0 client0 ''t'' batch0 (sender0 [DoResponse 500, DoResponse 200]))
     = Some (2, True)"
proof -
  have s: "send (scripted 3) client0 ''t'' ''job=x'' ([DoResponse 200], 0, 100) =
     ((200, None), [pushRequest (scripted 3) client0 ''t'' ''job=x''], ([], 0, 100))"
    by (simp add: send_def scripted_def client0_def Let_def signed_divide_int_def)
  note sb = sendBatch_500_200
  note t = send_tenant_header[of "scripted 3" client0 "''t''" "''job=x''" "([DoResponse 200], 0, 100)"
      "(200, None)" "[pushRequest (scripted 3) client0 ''t'' ''job=x'']" "([], 0, 100)" ops0 batch0
      "sender0 [DoResponse 500, DoResponse 200]", unfolded sb]
  from t have a: "Header (pushRequest (scripted 3) client0 ''t'' ''job=x'') ''X-Scope-OrgID'' = Some ''t''"
    by simp
  from send_tenant_header[THEN conjunct1, of "scripted 3" client0 "[]" "''job=x''"]
  have b: "Header (pushRequest (scripted 3) client0 [] ''job=x'') ''X-Scope-OrgID'' = None"
    by simp
  from t obtain new where n: "[pushRequest (scripted 3) client0 ''t'' ''job=x'',
       pushRequest (scripted 3) client0 ''t'' ''job=x''] = new"
      "\<forall>req \<in> set new. Header req ''X-Scope-OrgID'' = Some ''t''"
    by (auto simp: sender0_def)
  then have c: "list_all (\<lambda>req. Header req ''X-Scope-OrgID'' = Some ''t'')
      [pushRequest (scripted 3) client0 ''t'' ''job=x'', pushRequest (scripted 3) client0 ''t'' ''job=x'']"
    by (simp add: list_all_iff)
  from a b s c show ?thesis by (simp add: sb)
qed

section \<open>Properties of the sender\<close>

lemma updateLag_counters:
  "updateLag ev c ss m w = (r, m', w') \<Longrightarrow>
     encodedBytes m' = encodedBytes m \<and> sentBytes m' = sentBytes m \<and>
     droppedBytes m' = droppedBytes m \<and> sentEntries m' = sentEntries m \<and>
     droppedEntries m' = droppedEntries m \<and> batchRetries m' = batchRetries m \<and>
     requestDuration m' = requestDuration m"
  by (induction ss arbitrary: m w) (auto split: option.splits if_splits prod.splits)

text \<open>The loop over the streams does what \<open>lagSets\<close> and \<open>lagExit\<close> say.\<close>

lemma updateLag_eq:
  "updateLag ev c ss m w =
     (lagExit ev ss,
      m\<lparr>streamLag := streamLag m @ fst (lagSets ev c w (takeWhile (settable ev) ss))\<rparr>,
      snd (lagSets ev c w (takeWhile (settable ev) ss)))"
proof (induction ss arbitrary: m w)
  case Nil
  then show ?case by (simp add: lagExit_def)
next
  case (Cons s ss)
  show ?case
  proof (cases "settable ev s")
    case False
    then show ?thesis
      by (auto simp: settable_def lagExit_def split: option.splits)
  next
    case True
    then obtain lbls where l: "ParseMetric ev (StreamLabels s) = Some lbls" and e: "Entries s \<noteq> []"
      by (auto simp: settable_def)
    obtain now w' where n: "Now ev w = (now, w')" by (metis prod.exhaust)
    have x: "lagExit ev (s # ss) = lagExit ev ss" using True by (simp add: lagExit_def)
    show ?thesis
      using True by (simp add: l e n x Cons.IH split: prod.splits)
  qed
qed

lemma lagExit_cases:
  "lagExit ev ss \<in> {Returns None, Returns (Some ErrParseMetric), Panics}"
  by (simp add: lagExit_def split: list.splits)

lemma lagExit_all:
  "list_all (settable ev) ss \<Longrightarrow> lagExit ev ss = Returns None \<and> takeWhile (settable ev) ss = ss"
  by (induction ss) (auto simp: lagExit_def)

lemma lagExit_parse_error:
  "\<not> list_all (\<lambda>s. ParseMetric ev (StreamLabels s) \<noteq> None) ss \<Longrightarrow>
   list_all (\<lambda>s. Entries s \<noteq> []) ss \<Longrightarrow>
   lagExit ev ss = Returns (Some ErrParseMetric)"
  by (induction ss) (auto simp: lagExit_def settable_def)

lemma sdiv_nonpos: "(s :: int) \<le> 0 \<Longrightarrow> s sdiv 100 \<le> 0"
  by (simp add: signed_divide_int_def sgn_if mult_le_0_iff pos_imp_zdiv_nonneg_iff)

lemma retryable_not_2xx: "retryable s \<Longrightarrow> s sdiv 100 \<noteq> 2"
  using sdiv_nonpos[of s] by (auto simp: retryable_def signed_divide_int_def)

lemma retryable_code: "(\<not> (s > 0 \<and> s \<noteq> 429 \<and> s sdiv 100 \<noteq> 5)) = retryable s"
  by (auto simp: retryable_def)

lemma attempt_failed:
  assumes "Now ev (world st) = (start, w0)"
      and "send ev c tenantID buf w0 = ((status, Some err), rs, w1)"
      and "Now ev w1 = (fin, w2)"
  shows "attempt ev ops c tenantID b buf n st =
           (let failed = st\<lparr>metrics := (metrics st)
                              \<lparr>requestDuration := requestDuration (metrics st) @ [(status, Sub fin start)]\<rparr>,
                            requests := requests st @ rs, world := w2\<rparr>;
                waited = failed\<lparr>metrics := (metrics failed)
                                  \<lparr>batchRetries := batchRetries (metrics failed) + 1\<rparr>,
                                world := backoff_Wait ev w2\<rparr>
            in if retryable status
               then if backoff_Ongoing ev (backoff_Wait ev w2) then Again waited
                    else Break (Some err) waited
               else Break (Some err) failed)"
proof -
  have k: "(status > 0 \<and> status \<noteq> 429 \<and> status sdiv 100 \<noteq> 5) = (\<not> retryable status)"
    by (auto simp: retryable_def)
  show ?thesis
    unfolding attempt_failure[OF assms] k
    by (cases "retryable status") (simp_all add: Let_def)
qed

text \<open>What one turn does to the counters, by the way it ends.\<close>

lemma attempt_counts:
  assumes "attempt ev ops c tenantID b buf n st = t"
  shows "\<exists>s d. (case t of
      Return r st' \<Rightarrow>
        requestDuration (metrics st') = requestDuration (metrics st) @ [(s, d)] \<and> s sdiv 100 = 2
        \<and> r = lagExit ev (streams ops b)
        \<and> batchRetries (metrics st') = batchRetries (metrics st)
        \<and> sentBytes (metrics st') = sentBytes (metrics st) + length buf
        \<and> sentEntries (metrics st') = sentEntries (metrics st) + n
        \<and> droppedBytes (metrics st') = droppedBytes (metrics st)
        \<and> droppedEntries (metrics st') = droppedEntries (metrics st)
    | Break e st' \<Rightarrow>
        requestDuration (metrics st') = requestDuration (metrics st) @ [(s, d)] \<and> s sdiv 100 \<noteq> 2
        \<and> e \<noteq> None
        \<and> batchRetries (metrics st') = batchRetries (metrics st) + (if retryable s then 1 else 0)
        \<and> (retryable s \<longrightarrow> \<not> backoff_Ongoing ev (world st'))
        \<and> sentBytes (metrics st') = sentBytes (metrics st)
        \<and> sentEntries (metrics st') = sentEntries (metrics st)
        \<and> droppedBytes (metrics st') = droppedBytes (metrics st)
        \<and> droppedEntries (metrics st') = droppedEntries (metrics st)
    | Again st' \<Rightarrow>
        requestDuration (metrics st') = requestDuration (metrics st) @ [(s, d)] \<and> retryable s
        \<and> batchRetries (metrics st') = batchRetries (metrics st) + 1
        \<and> sentBytes (metrics st') = sentBytes (metrics st)
        \<and> sentEntries (metrics st') = sentEntries (metrics st)
        \<and> droppedBytes (metrics st') = droppedBytes (metrics st)
        \<and> droppedEntries (metrics st') = droppedEntries (metrics st))"
proof -
  obtain start w0 where n0: "Now ev (world st) = (start, w0)" by (metis prod.exhaust)
  obtain status err rs w1 where s: "send ev c tenantID buf w0 = ((status, err), rs, w1)"
    by (metis prod.exhaust)
  obtain fin w2 where n1: "Now ev w1 = (fin, w2)" by (metis prod.exhaust)
  show ?thesis
  proof (cases err)
    case None
    with send_cases[OF s] have ok: "status sdiv 100 = 2" by (auto split: if_splits)
    let ?m = "(metrics st)\<lparr>requestDuration := requestDuration (metrics st) @ [(status, Sub fin start)],
                           sentBytes := sentBytes (metrics st) + length buf,
                           sentEntries := sentEntries (metrics st) + n\<rparr>"
    note u = updateLag_eq[of ev c "streams ops b" ?m w2]
    from attempt_success[OF n0 s[unfolded None] n1 u] assms ok show ?thesis
      by (intro exI[of _ status] exI[of _ "Sub fin start"]) auto
  next
    case (Some e)
    with send_cases[OF s] have nok: "status sdiv 100 \<noteq> 2"
      by (auto simp: signed_divide_int_def split: if_splits)
    from attempt_failed[OF n0 s[unfolded Some] n1, of ops b n] assms nok show ?thesis
      by (intro exI[of _ status] exI[of _ "Sub fin start"])
         (auto simp: Let_def split: if_splits)
  qed
qed

lemma attempt_dropped:
  assumes "attempt ev ops c tenantID b buf n st = t"
  shows "(case t of
      Return r st' \<Rightarrow> r \<in> {Returns None, Returns (Some ErrParseMetric), Panics}
         \<and> droppedBytes (metrics st') = droppedBytes (metrics st)
         \<and> droppedEntries (metrics st') = droppedEntries (metrics st)
    | Break e st' \<Rightarrow> e \<noteq> None
         \<and> droppedBytes (metrics st') = droppedBytes (metrics st)
         \<and> droppedEntries (metrics st') = droppedEntries (metrics st)
    | Again st' \<Rightarrow> droppedBytes (metrics st') = droppedBytes (metrics st)
         \<and> droppedEntries (metrics st') = droppedEntries (metrics st))"
  using attempt_counts[OF assms] lagExit_cases[of ev "streams ops b"]
  by (cases t) auto

text \<open>
  Whatever the number of turns, a call that ends with an error of the transport or of
  the server has added the buffer and the entries to the dropped counters, once.
\<close>

lemma sendLoop_dropped:
  assumes "sendLoop ev ops c tenantID b buf n st = Some y"
  shows "fst y = Returns (Some err) \<and> err \<noteq> ErrParseMetric \<longrightarrow>
           droppedBytes (metrics (snd y)) = droppedBytes (metrics st) + length buf \<and>
           droppedEntries (metrics (snd y)) = droppedEntries (metrics st) + n"
proof (rule sendLoop.raw_induct[where P = "\<lambda>ev ops c tenantID b buf n st y.
         fst y = Returns (Some err) \<and> err \<noteq> ErrParseMetric \<longrightarrow>
           droppedBytes (metrics (snd y)) = droppedBytes (metrics st) + length buf \<and>
           droppedEntries (metrics (snd y)) = droppedEntries (metrics st) + n",
         OF _ assms], goal_cases)
  case (1 f ev ops c tenantID b buf n st y)
  show ?case
  proof (cases "attempt ev ops c tenantID b buf n st")
    case (Return r st')
    with 1(2) attempt_dropped[OF Return] show ?thesis by auto
  next
    case (Break e st')
    with 1(2) attempt_dropped[OF Break] show ?thesis by (auto simp: afterLoop_def)
  next
    case (Again st')
    with 1(2) have "f ev ops c tenantID b buf n st' = Some y" by simp
    from 1(1)[OF this] attempt_dropped[OF Again] show ?thesis by simp
  qed
qed

text \<open>
  The observations of a call, one for each attempt. Every attempt but the last had a
  retryable status; one retry is counted for each attempt with a retryable status;
  the call ends on a 2xx status, on a status that is not retryable, or when the
  backoff is no longer going on. The sent counters move only on a 2xx status.
\<close>

lemma sendLoop_observations:
  assumes "sendLoop ev ops c tenantID b buf n st = Some y"
  shows "\<exists>obs. requestDuration (metrics (snd y)) = requestDuration (metrics st) @ obs \<and> obs \<noteq> []
      \<and> list_all (\<lambda>(s, d). retryable s) (butlast obs)
      \<and> batchRetries (metrics (snd y)) =
          batchRetries (metrics st) + length (filter (\<lambda>(s, d). retryable s) obs)
      \<and> (fst (last obs) sdiv 100 = 2 \<or> \<not> retryable (fst (last obs))
            \<or> \<not> backoff_Ongoing ev (world (snd y)))
      \<and> (if fst (last obs) sdiv 100 = 2
          then sentBytes (metrics (snd y)) = sentBytes (metrics st) + length buf
             \<and> sentEntries (metrics (snd y)) = sentEntries (metrics st) + n
             \<and> fst y = lagExit ev (streams ops b)
          else sentBytes (metrics (snd y)) = sentBytes (metrics st)
             \<and> sentEntries (metrics (snd y)) = sentEntries (metrics st)
             \<and> (\<exists>e. fst y = Returns (Some e)))"
proof (rule sendLoop.raw_induct[where P = "\<lambda>ev ops c tenantID b buf n st y.
      \<exists>obs. requestDuration (metrics (snd y)) = requestDuration (metrics st) @ obs \<and> obs \<noteq> []
      \<and> list_all (\<lambda>(s, d). retryable s) (butlast obs)
      \<and> batchRetries (metrics (snd y)) =
          batchRetries (metrics st) + length (filter (\<lambda>(s, d). retryable s) obs)
      \<and> (fst (last obs) sdiv 100 = 2 \<or> \<not> retryable (fst (last obs))
            \<or> \<not> backoff_Ongoing ev (world (snd y)))
      \<and> (if fst (last obs) sdiv 100 = 2
          then sentBytes (metrics (snd y)) = sentBytes (metrics st) + length buf
             \<and> sentEntries (metrics (snd y)) = sentEntries (metrics st) + n
             \<and> fst y = lagExit ev (streams ops b)
          else sentBytes (metrics (snd y)) = sentBytes (metrics st)
             \<and> sentEntries (metrics (snd y)) = sentEntries (metrics st)
             \<and> (\<exists>e. fst y = Returns (Some e)))",
         OF _ assms], goal_cases)
  case (1 f ev ops c tenantID b buf n st y)
  show ?case
  proof (cases "attempt ev ops c tenantID b buf n st")
    case (Return r st')
    from attempt_counts[OF Return] obtain s d where
      a: "requestDuration (metrics st') = requestDuration (metrics st) @ [(s, d)]" "s sdiv 100 = 2"
         "r = lagExit ev (streams ops b)"
         "batchRetries (metrics st') = batchRetries (metrics st)"
         "sentBytes (metrics st') = sentBytes (metrics st) + length buf"
         "sentEntries (metrics st') = sentEntries (metrics st) + n"
      by auto
    from a(2) retryable_not_2xx[of s] have nr: "\<not> retryable s" by blast
    from 1(2) Return have y: "y = (r, st')" by simp
    show ?thesis
      by (rule exI[of _ "[(s, d)]"]) (simp add: y a nr)
  next
    case (Break e st')
    from attempt_counts[OF Break] obtain s d where
      a: "requestDuration (metrics st') = requestDuration (metrics st) @ [(s, d)]" "s sdiv 100 \<noteq> 2"
         "e \<noteq> None"
         "batchRetries (metrics st') = batchRetries (metrics st) + (if retryable s then 1 else 0)"
         "retryable s \<longrightarrow> \<not> backoff_Ongoing ev (world st')"
         "sentBytes (metrics st') = sentBytes (metrics st)"
         "sentEntries (metrics st') = sentEntries (metrics st)"
      by auto
    from 1(2) Break have y: "y = afterLoop buf n e st'" by simp
    show ?thesis
      using a by (intro exI[of _ "[(s, d)]"]) (auto simp: y afterLoop_def)
  next
    case (Again st')
    from attempt_counts[OF Again] obtain s d where
      a: "requestDuration (metrics st') = requestDuration (metrics st) @ [(s, d)]" "retryable s"
         "batchRetries (metrics st') = batchRetries (metrics st) + 1"
         "sentBytes (metrics st') = sentBytes (metrics st)"
         "sentEntries (metrics st') = sentEntries (metrics st)"
      by auto
    from 1(2) Again have "f ev ops c tenantID b buf n st' = Some y" by simp
    from 1(1)[OF this] obtain obs where
      o: "requestDuration (metrics (snd y)) = requestDuration (metrics st') @ obs" "obs \<noteq> []"
         "list_all (\<lambda>(s, d). retryable s) (butlast obs)"
         "batchRetries (metrics (snd y)) =
            batchRetries (metrics st') + length (filter (\<lambda>(s, d). retryable s) obs)"
         "fst (last obs) sdiv 100 = 2 \<or> \<not> retryable (fst (last obs))
            \<or> \<not> backoff_Ongoing ev (world (snd y))"
         "if fst (last obs) sdiv 100 = 2
          then sentBytes (metrics (snd y)) = sentBytes (metrics st') + length buf
             \<and> sentEntries (metrics (snd y)) = sentEntries (metrics st') + n
             \<and> fst y = lagExit ev (streams ops b)
          else sentBytes (metrics (snd y)) = sentBytes (metrics st')
             \<and> sentEntries (metrics (snd y)) = sentEntries (metrics st')
             \<and> (\<exists>e. fst y = Returns (Some e))"
      by blast
    show ?thesis
      using a o by (intro exI[of _ "(s, d) # obs"]) (auto split: if_splits)
  qed
qed


lemma scripted_facts:
  "Now (scripted k) (rs, i, t) = (t, (rs, i, t + 10))"
  "backoff_New (scripted k) (rs, i, t) = (rs, 0, t)"
  "backoff_Wait (scripted k) (rs, i, t) = (rs, Suc i, t)"
  "backoff_Ongoing (scripted k) (rs, i, t) = (i < k)"
  "Do (scripted k) req (r # rs, i, t) = (r, (rs, i, t))"
  "Do (scripted k) req ([], i, t) = (DoError, ([], i, t))"
  "\<not> NewRequest_fails (scripted k) (cfg_URL (cfg client0))"
  by (simp_all add: scripted_def client0_def)




lemma batch1_eq:
  "batch1 = \<lparr>streams_of = [(''job=z'', \<lparr>StreamLabels = ''job=z'',
                                        Entries = [\<lparr>Timestamp = 7, Line = ''hello''\<rparr>]\<rparr>)],
             bytes = 5, createdAt = 0, maxStreams = 0\<rparr>"
  by (simp add: batch1_def batch_replay_def batch_new_def entry0_def render0_def Let_def)

text \<open>
  C6, as the code has it. When the batch encodes and \<^verbatim>\<open>sendBatch\<close> returns an error of
  the transport or of the server (not the error of the label parser, which can only
  follow a successful delivery), the dropped-bytes counter has grown by the length of
  the buffer and the dropped-entries counter by the number of entries. When the batch
  does not encode, \<^verbatim>\<open>sendBatch\<close> returns the encoding error and changes nothing: no
  counter moves.
\<close>

theorem sendBatch_dropped_counters:
  "(encode ops b = Inr (buf, n) \<and> sendBatch ev ops c tenantID b st = Some (Returns (Some err), st')
      \<and> err \<noteq> ErrParseMetric \<longrightarrow>
        droppedBytes (metrics st') = droppedBytes (metrics st) + length buf \<and>
        droppedEntries (metrics st') = droppedEntries (metrics st) + n) \<and>
   (encode ops b = Inl err \<longrightarrow> sendBatch ev ops c tenantID b st = Some (Returns (Some err), st))"
proof (rule conjI; rule impI)
  assume a: "encode ops b = Inr (buf, n) \<and>
      sendBatch ev ops c tenantID b st = Some (Returns (Some err), st') \<and> err \<noteq> ErrParseMetric"
  then have "sendLoop ev ops c tenantID b buf n
      (st\<lparr>metrics := (metrics st)\<lparr>encodedBytes := encodedBytes (metrics st) + length buf\<rparr>,
          world := backoff_New ev (world st)\<rparr>) = Some (Returns (Some err), st')"
    by (auto simp: sendBatch_def Let_def)
  from sendLoop_dropped[OF this, of err] a
  show "droppedBytes (metrics st') = droppedBytes (metrics st) + length buf \<and>
        droppedEntries (metrics st') = droppedEntries (metrics st) + n" by simp
next
  assume "encode ops b = Inl err"
  then show "sendBatch ev ops c tenantID b st = Some (Returns (Some err), st)"
    by (simp add: sendBatch_def)
qed

theorem sendBatch_dropped_counters_witness:
  "encode ops0 batch0 = Inr (''job=x'', 1) \<and>
   sendBatch (scripted 3) ops0 client0 ''t'' batch0 (sender0 [DoResponse 400]) =
     Some (Returns (Some (ErrStatus 400)),
       \<lparr>metrics = \<lparr>encodedBytes = 5, sentBytes = 0, droppedBytes = 5, sentEntries = 0,
                   droppedEntries = 1, requestDuration = [(400, 10)], batchRetries = 0, streamLag = []\<rparr>,
        requests = [pushRequest (scripted 3) client0 ''t'' ''job=x''], world = ([], 0, 120)\<rparr>) \<and>
   ErrStatus 400 \<noteq> ErrParseMetric \<and>
   (5 :: nat) = droppedBytes (metrics (sender0 [DoResponse 400])) + length ''job=x'' \<and>
   (1 :: nat) = droppedEntries (metrics (sender0 [DoResponse 400])) + 1 \<and>
   encode (spec_batch render0 marshal_fails) batch0 = Inl ErrEncode \<and>
   sendBatch (scripted 3) (spec_batch render0 marshal_fails) client0 ''t'' batch0 (sender0 [])
     = Some (Returns (Some ErrEncode), sender0 [])"
proof -
  let ?st' = "\<lparr>metrics = \<lparr>encodedBytes = 5, sentBytes = 0, droppedBytes = 5, sentEntries = 0,
                   droppedEntries = 1, requestDuration = [(400, 10)], batchRetries = 0, streamLag = []\<rparr>,
        requests = [pushRequest (scripted 3) client0 ''t'' ''job=x''],
        world = ([] :: do_result list, 0 :: nat, 120 :: int)\<rparr>"
  note r = sendBatch_400
  have e: "encode (spec_batch render0 marshal_fails) batch0 = Inl ErrEncode"
    by (simp add: spec_batch_def batch_encode_def marshal_fails_def)
  have ne: "ErrStatus 400 \<noteq> ErrParseMetric" by simp
  have "droppedBytes (metrics ?st') = droppedBytes (metrics (sender0 [DoResponse 400])) + length ''job=x''
      \<and> droppedEntries (metrics ?st') = droppedEntries (metrics (sender0 [DoResponse 400])) + 1"
    apply (rule sendBatch_dropped_counters[where ops = ops0 and b = batch0 and buf = "''job=x''"
          and n = 1 and ev = "scripted 3" and c = client0 and tenantID = "''t''"
          and st = "sender0 [DoResponse 400]" and err = "ErrStatus 400" and st' = ?st',
          THEN conjunct1, THEN mp])
    apply (intro conjI)
      apply (rule encode_batch0)
     apply (rule r)
    apply (rule ne)
    done
  then have d: "(5 :: nat) = droppedBytes (metrics (sender0 [DoResponse 400])) + length ''job=x''"
      "(1 :: nat) = droppedEntries (metrics (sender0 [DoResponse 400])) + 1"
    by simp_all
  have f: "sendBatch (scripted 3) (spec_batch render0 marshal_fails) client0 ''t'' batch0 (sender0 [])
     = Some (Returns (Some ErrEncode), sender0 [])"
    by (rule sendBatch_dropped_counters[where ops = "spec_batch render0 marshal_fails"
          and b = batch0 and ev = "scripted 3" and c = client0 and tenantID = "''t''"
          and st = "sender0 []" and err = ErrEncode, THEN conjunct2, THEN mp]) (rule e)
  from encode_batch0 r ne d e f show ?thesis by (intro conjI)
qed

text \<open>
  A batch of one entry that fails to encode is lost, and the dropped counters stay at
  zero.
\<close>

theorem sendBatch_encode_failure_not_counted:
  "sendBatch (scripted 3) (spec_batch render0 marshal_fails) client0 ''t'' batch0 (sender0 [])
     = Some (Returns (Some ErrEncode), sender0 []) \<and>
   length (batch_entries batch0) = 1 \<and>
   droppedBytes (metrics (sender0 [])) = 0 \<and> droppedEntries (metrics (sender0 [])) = 0"
  by (simp add: sendBatch_def spec_batch_def batch_encode_def marshal_fails_def sender0_def
      batch0_eq batch_entries_def)

lemma streams_batch1:
  "streams ops0 batch1 =
     [\<lparr>StreamLabels = ''job=z'', Entries = [\<lparr>Timestamp = 7, Line = ''hello''\<rparr>]\<rparr>]"
  by (simp add: ops0_def spec_batch_def batch1_eq)

lemma encode_batch1: "encode ops0 batch1 = Inr (''job=z'', 1)"
  by (simp add: ops0_def spec_batch_def batch_encode_def marshal0_def batch1_eq batch_entries_def)

text \<open>A turn of the loop whose attempt gets a response with a 2xx status.\<close>

lemma sendLoop_2xx:
  assumes "Now ev (world s) = (start, w0)"
      and "\<not> NewRequest_fails ev (cfg_URL (cfg c))"
      and "Do ev (pushRequest ev c tenantID buf) w0 = (DoResponse code, w1)"
      and "code sdiv 100 = 2"
      and "Now ev w1 = (fin, w2)"
  shows "sendLoop ev ops c tenantID b buf n s =
           Some (lagExit ev (streams ops b),
                 s\<lparr>metrics := (metrics s)
                       \<lparr>sentBytes := sentBytes (metrics s) + length buf,
                        sentEntries := sentEntries (metrics s) + n,
                        requestDuration := requestDuration (metrics s) @ [(code, Sub fin start)],
                        streamLag := streamLag (metrics s) @
                          fst (lagSets ev c w2 (takeWhile (settable ev) (streams ops b)))\<rparr>,
                    requests := requests s @ [pushRequest ev c tenantID buf],
                    world := snd (lagSets ev c w2 (takeWhile (settable ev) (streams ops b)))\<rparr>)"
proof -
  note s = send_2xx[OF assms(2,3,4)]
  let ?m = "(metrics s)\<lparr>requestDuration := requestDuration (metrics s) @ [(code, Sub fin start)],
                           sentBytes := sentBytes (metrics s) + length buf,
                           sentEntries := sentEntries (metrics s) + n\<rparr>"
  note u = updateLag_eq[of ev c "streams ops b" ?m w2]
  show ?thesis
    by (subst sendLoop.simps) (simp add: attempt_success[OF assms(1) s assms(5) u])
qed

text \<open>
  C7, as the code has it. \<^verbatim>\<open>sendBatch\<close> runs its loop on the buffer and the count that
  \<^verbatim>\<open>encode\<close> gave. When an attempt gets a response with a 2xx status, in the first turn
  or in any later one, it adds the length of that buffer to the sent-bytes counter and
  that count to the sent-entries counter, and goes through the streams of the batch in
  order: for each stream whose label string parses (and which holds an entry) it reads
  the clock and sets the lag gauge to the time since the last entry of the stream, a
  duration that is the clock reading minus the timestamp when that fits in 64 bits. It
  returns no error when that was every stream; at the first stream whose label string
  does not parse it stops and returns the error of the parser, the gauges of that
  stream and of the streams after it not set. The sent counters move on no other
  occasion.
\<close>

theorem sendBatch_success:
  "(encode ops b = Inr (buf, n) \<longrightarrow>
      sendBatch ev ops c tenantID b st =
        sendLoop ev ops c tenantID b buf n
          (st\<lparr>metrics := (metrics st)\<lparr>encodedBytes := encodedBytes (metrics st) + length buf\<rparr>,
              world := backoff_New ev (world st)\<rparr>)) \<and>
   (Now ev (world s) = (start, w0) \<and> \<not> NewRequest_fails ev (cfg_URL (cfg c))
      \<and> Do ev (pushRequest ev c tenantID buf) w0 = (DoResponse code, w1) \<and> code sdiv 100 = 2
      \<and> Now ev w1 = (fin, w2) \<longrightarrow>
      sendLoop ev ops c tenantID b buf n s =
        Some (lagExit ev (streams ops b),
              s\<lparr>metrics := (metrics s)
                    \<lparr>sentBytes := sentBytes (metrics s) + length buf,
                     sentEntries := sentEntries (metrics s) + n,
                     requestDuration := requestDuration (metrics s) @ [(code, Sub fin start)],
                     streamLag := streamLag (metrics s) @
                       fst (lagSets ev c w2 (takeWhile (settable ev) (streams ops b)))\<rparr>,
                 requests := requests s @ [pushRequest ev c tenantID buf],
                 world := snd (lagSets ev c w2 (takeWhile (settable ev) (streams ops b)))\<rparr>)) \<and>
   (encode ops b = Inr (buf, n) \<and> Now ev (backoff_New ev (world st)) = (start, w0)
      \<and> \<not> NewRequest_fails ev (cfg_URL (cfg c))
      \<and> Do ev (pushRequest ev c tenantID buf) w0 = (DoResponse code, w1) \<and> code sdiv 100 = 2
      \<and> Now ev w1 = (fin, w2) \<longrightarrow>
      sendBatch ev ops c tenantID b st =
        Some (lagExit ev (streams ops b),
              st\<lparr>metrics := (metrics st)
                    \<lparr>encodedBytes := encodedBytes (metrics st) + length buf,
                     sentBytes := sentBytes (metrics st) + length buf,
                     sentEntries := sentEntries (metrics st) + n,
                     requestDuration := requestDuration (metrics st) @ [(code, Sub fin start)],
                     streamLag := streamLag (metrics st) @
                       fst (lagSets ev c w2 (takeWhile (settable ev) (streams ops b)))\<rparr>,
                 requests := requests st @ [pushRequest ev c tenantID buf],
                 world := snd (lagSets ev c w2 (takeWhile (settable ev) (streams ops b)))\<rparr>)) \<and>
   (list_all (settable ev) ss \<longrightarrow> lagExit ev ss = Returns None \<and> takeWhile (settable ev) ss = ss) \<and>
   (\<not> list_all (\<lambda>x. ParseMetric ev (StreamLabels x) \<noteq> None) ss \<and> list_all (\<lambda>x. Entries x \<noteq> []) ss
      \<longrightarrow> lagExit ev ss = Returns (Some ErrParseMetric)) \<and>
   (minDuration \<le> now - t \<and> now - t \<le> maxDuration \<longrightarrow> Sub now t = now - t) \<and>
   (encode ops b = Inr (buf, n) \<and> sendBatch ev ops c tenantID b st = Some (r, st') \<longrightarrow>
      (\<exists>obs. requestDuration (metrics st') = requestDuration (metrics st) @ obs \<and> obs \<noteq> []
         \<and> (if fst (last obs) sdiv 100 = 2
             then sentBytes (metrics st') = sentBytes (metrics st) + length buf
                \<and> sentEntries (metrics st') = sentEntries (metrics st) + n
                \<and> r = lagExit ev (streams ops b)
             else sentBytes (metrics st') = sentBytes (metrics st)
                \<and> sentEntries (metrics st') = sentEntries (metrics st)
                \<and> (\<exists>e. r = Returns (Some e)))))"
proof (intro conjI impI)
  assume "encode ops b = Inr (buf, n)"
  then show "sendBatch ev ops c tenantID b st =
        sendLoop ev ops c tenantID b buf n
          (st\<lparr>metrics := (metrics st)\<lparr>encodedBytes := encodedBytes (metrics st) + length buf\<rparr>,
              world := backoff_New ev (world st)\<rparr>)"
    by (rule sendBatch_encoded)
next
  assume "Now ev (world s) = (start, w0) \<and> \<not> NewRequest_fails ev (cfg_URL (cfg c))
      \<and> Do ev (pushRequest ev c tenantID buf) w0 = (DoResponse code, w1) \<and> code sdiv 100 = 2
      \<and> Now ev w1 = (fin, w2)"
  then show "sendLoop ev ops c tenantID b buf n s =
        Some (lagExit ev (streams ops b),
              s\<lparr>metrics := (metrics s)
                    \<lparr>sentBytes := sentBytes (metrics s) + length buf,
                     sentEntries := sentEntries (metrics s) + n,
                     requestDuration := requestDuration (metrics s) @ [(code, Sub fin start)],
                     streamLag := streamLag (metrics s) @
                       fst (lagSets ev c w2 (takeWhile (settable ev) (streams ops b)))\<rparr>,
                 requests := requests s @ [pushRequest ev c tenantID buf],
                 world := snd (lagSets ev c w2 (takeWhile (settable ev) (streams ops b)))\<rparr>)"
    using sendLoop_2xx[of ev s start w0 c tenantID buf code w1 fin w2 ops b n] by blast
next
  assume h: "encode ops b = Inr (buf, n) \<and> Now ev (backoff_New ev (world st)) = (start, w0)
      \<and> \<not> NewRequest_fails ev (cfg_URL (cfg c))
      \<and> Do ev (pushRequest ev c tenantID buf) w0 = (DoResponse code, w1) \<and> code sdiv 100 = 2
      \<and> Now ev w1 = (fin, w2)"
  let ?s = "st\<lparr>metrics := (metrics st)\<lparr>encodedBytes := encodedBytes (metrics st) + length buf\<rparr>,
              world := backoff_New ev (world st)\<rparr>"
  from h have n0: "Now ev (world ?s) = (start, w0)" by simp
  from h have e: "encode ops b = Inr (buf, n)" by simp
  from h have r: "\<not> NewRequest_fails ev (cfg_URL (cfg c))"
      "Do ev (pushRequest ev c tenantID buf) w0 = (DoResponse code, w1)" "code sdiv 100 = 2"
      "Now ev w1 = (fin, w2)" by simp_all
  show "sendBatch ev ops c tenantID b st =
        Some (lagExit ev (streams ops b),
              st\<lparr>metrics := (metrics st)
                    \<lparr>encodedBytes := encodedBytes (metrics st) + length buf,
                     sentBytes := sentBytes (metrics st) + length buf,
                     sentEntries := sentEntries (metrics st) + n,
                     requestDuration := requestDuration (metrics st) @ [(code, Sub fin start)],
                     streamLag := streamLag (metrics st) @
                       fst (lagSets ev c w2 (takeWhile (settable ev) (streams ops b)))\<rparr>,
                 requests := requests st @ [pushRequest ev c tenantID buf],
                 world := snd (lagSets ev c w2 (takeWhile (settable ev) (streams ops b)))\<rparr>)"
    unfolding sendBatch_encoded[OF e] sendLoop_2xx[OF n0 r] by simp
next
  assume "list_all (settable ev) ss"
  from lagExit_all[OF this]
  show "lagExit ev ss = Returns None" "takeWhile (settable ev) ss = ss" by simp_all
next
  assume "\<not> list_all (\<lambda>x. ParseMetric ev (StreamLabels x) \<noteq> None) ss \<and>
      list_all (\<lambda>x. Entries x \<noteq> []) ss"
  then show "lagExit ev ss = Returns (Some ErrParseMetric)"
    using lagExit_parse_error[of ev ss] by blast
next
  assume "minDuration \<le> now - t \<and> now - t \<le> maxDuration"
  then show "Sub now t = now - t" by (simp add: Sub_def)
next
  assume h: "encode ops b = Inr (buf, n) \<and> sendBatch ev ops c tenantID b st = Some (r, st')"
  then have "sendLoop ev ops c tenantID b buf n
          (st\<lparr>metrics := (metrics st)\<lparr>encodedBytes := encodedBytes (metrics st) + length buf\<rparr>,
              world := backoff_New ev (world st)\<rparr>) = Some (r, st')"
    using sendBatch_encoded[of ops b buf n ev c tenantID st] by simp
  from sendLoop_observations[OF this] obtain obs where
    o: "requestDuration (metrics (snd (r, st'))) =
          requestDuration (metrics (st\<lparr>metrics := (metrics st)
              \<lparr>encodedBytes := encodedBytes (metrics st) + length buf\<rparr>,
              world := backoff_New ev (world st)\<rparr>)) @ obs \<and> obs \<noteq> []
      \<and> list_all (\<lambda>(s, d). retryable s) (butlast obs)
      \<and> batchRetries (metrics (snd (r, st'))) =
          batchRetries (metrics (st\<lparr>metrics := (metrics st)
              \<lparr>encodedBytes := encodedBytes (metrics st) + length buf\<rparr>,
              world := backoff_New ev (world st)\<rparr>)) + length (filter (\<lambda>(s, d). retryable s) obs)
      \<and> (fst (last obs) sdiv 100 = 2 \<or> \<not> retryable (fst (last obs))
            \<or> \<not> backoff_Ongoing ev (world (snd (r, st'))))
      \<and> (if fst (last obs) sdiv 100 = 2
          then sentBytes (metrics (snd (r, st'))) =
                 sentBytes (metrics (st\<lparr>metrics := (metrics st)
                    \<lparr>encodedBytes := encodedBytes (metrics st) + length buf\<rparr>,
                    world := backoff_New ev (world st)\<rparr>)) + length buf
             \<and> sentEntries (metrics (snd (r, st'))) =
                 sentEntries (metrics (st\<lparr>metrics := (metrics st)
                    \<lparr>encodedBytes := encodedBytes (metrics st) + length buf\<rparr>,
                    world := backoff_New ev (world st)\<rparr>)) + n
             \<and> fst (r, st') = lagExit ev (streams ops b)
          else sentBytes (metrics (snd (r, st'))) =
                 sentBytes (metrics (st\<lparr>metrics := (metrics st)
                    \<lparr>encodedBytes := encodedBytes (metrics st) + length buf\<rparr>,
                    world := backoff_New ev (world st)\<rparr>))
             \<and> sentEntries (metrics (snd (r, st'))) =
                 sentEntries (metrics (st\<lparr>metrics := (metrics st)
                    \<lparr>encodedBytes := encodedBytes (metrics st) + length buf\<rparr>,
                    world := backoff_New ev (world st)\<rparr>))
             \<and> (\<exists>e. fst (r, st') = Returns (Some e)))"
    by blast
  show "\<exists>obs. requestDuration (metrics st') = requestDuration (metrics st) @ obs \<and> obs \<noteq> []
         \<and> (if fst (last obs) sdiv 100 = 2
             then sentBytes (metrics st') = sentBytes (metrics st) + length buf
                \<and> sentEntries (metrics st') = sentEntries (metrics st) + n
                \<and> r = lagExit ev (streams ops b)
             else sentBytes (metrics st') = sentBytes (metrics st)
                \<and> sentEntries (metrics st') = sentEntries (metrics st)
                \<and> (\<exists>e. r = Returns (Some e)))"
    using o by (intro exI[of _ obs]) (simp split: if_splits)
qed

lemma scripted_parse:
  "ParseMetric (scripted k) ''job=x'' = Some [(''job'', ''x'')]"
  "ParseMetric (scripted k) ''job=z'' = None"
  by (simp_all add: scripted_def)

theorem sendBatch_success_witness:
  "encode ops0 batch0 = Inr (''job=x'', 1) \<and>
   Now (scripted 3) (backoff_New (scripted 3) (world (sender0 [DoResponse 200])))
     = (100, ([DoResponse 200], 0, 110)) \<and>
   Now (scripted 3) (world (sender0 [DoResponse 200])) = (100, ([DoResponse 200], 0, 110)) \<and>
   \<not> NewRequest_fails (scripted 3) (cfg_URL (cfg client0)) \<and>
   Do (scripted 3) (pushRequest (scripted 3) client0 ''t'' ''job=x'') ([DoResponse 200], 0, 110)
     = (DoResponse 200, ([], 0, 110)) \<and>
   (200 :: int) sdiv 100 = 2 \<and>
   Now (scripted 3) ([], 0, 110) = (110, ([], 0, 120)) \<and>
   sendLoop (scripted 3) ops0 client0 ''t'' batch0 ''job=x'' 1 (sender0 [DoResponse 200]) =
     Some (Returns None,
       \<lparr>metrics = \<lparr>encodedBytes = 0, sentBytes = 5, droppedBytes = 0, sentEntries = 1,
                   droppedEntries = 0, requestDuration = [(200, 10)], batchRetries = 0,
                   streamLag = [(lagLabels client0 [(''job'', ''x'')], 113)]\<rparr>,
        requests = [pushRequest (scripted 3) client0 ''t'' ''job=x''], world = ([], 0, 130)\<rparr>) \<and>
   sendBatch (scripted 3) ops0 client0 ''t'' batch0 (sender0 [DoResponse 200]) =
     Some (Returns None,
       \<lparr>metrics = \<lparr>encodedBytes = 5, sentBytes = 5, droppedBytes = 0, sentEntries = 1,
                   droppedEntries = 0, requestDuration = [(200, 10)], batchRetries = 0,
                   streamLag = [(lagLabels client0 [(''job'', ''x'')], 113)]\<rparr>,
        requests = [pushRequest (scripted 3) client0 ''t'' ''job=x''], world = ([], 0, 130)\<rparr>) \<and>
   list_all (settable (scripted 3)) (streams ops0 batch0) \<and>
   lagExit (scripted 3) (streams ops0 batch0) = Returns None \<and>
   \<not> list_all (\<lambda>x. ParseMetric (scripted 3) (StreamLabels x) \<noteq> None) (streams ops0 batch1) \<and>
   list_all (\<lambda>x. Entries x \<noteq> []) (streams ops0 batch1) \<and>
   lagExit (scripted 3) (streams ops0 batch1) = Returns (Some ErrParseMetric) \<and>
   minDuration \<le> 120 - 7 \<and> 120 - 7 \<le> maxDuration \<and> Sub 120 7 = 113"
proof -
  note e = encode_batch0
  have n0: "Now (scripted 3) (world (sender0 [DoResponse 200])) = (100, ([DoResponse 200], 0, 110))"
    by (simp add: sender0_def scripted_facts)
  have n0': "Now (scripted 3) (backoff_New (scripted 3) (world (sender0 [DoResponse 200])))
     = (100, ([DoResponse 200], 0, 110))"
    by (simp add: sender0_def scripted_facts)
  note nf = scripted_facts(7)[of 3]
  have d: "Do (scripted 3) (pushRequest (scripted 3) client0 ''t'' ''job=x'') ([DoResponse 200], 0, 110)
     = (DoResponse 200, ([], 0, 110))"
    by (simp add: scripted_facts)
  have ok: "(200 :: int) sdiv 100 = 2" by (simp add: signed_divide_int_def)
  have n1: "Now (scripted 3) ([], 0, 110) = (110, ([], 0, 120))" by (simp add: scripted_facts)
  have la: "list_all (settable (scripted 3)) (streams ops0 batch0)"
    by (simp add: streams_batch0 settable_def scripted_parse)
  have lx: "lagExit (scripted 3) (streams ops0 batch0) = Returns None"
    using sendBatch_success[where ev = "scripted 3" and ss = "streams ops0 batch0",
        THEN conjunct2, THEN conjunct2, THEN conjunct2, THEN conjunct1, THEN mp, OF la]
    by simp
  have tw: "takeWhile (settable (scripted 3)) (streams ops0 batch0) = streams ops0 batch0"
    using sendBatch_success[where ev = "scripted 3" and ss = "streams ops0 batch0",
        THEN conjunct2, THEN conjunct2, THEN conjunct2, THEN conjunct1, THEN mp, OF la]
    by simp
  have ls: "lagSets (scripted 3) client0 ([], 0, 120) (streams ops0 batch0) =
      ([(lagLabels client0 [(''job'', ''x'')], 113)], ([], 0, 130))"
    by (simp add: streams_batch0 scripted_facts scripted_parse Sub_def minDuration_def maxDuration_def)
  have a: "sendLoop (scripted 3) ops0 client0 ''t'' batch0 ''job=x'' 1 (sender0 [DoResponse 200]) =
     Some (Returns None,
       \<lparr>metrics = \<lparr>encodedBytes = 0, sentBytes = 5, droppedBytes = 0, sentEntries = 1,
                   droppedEntries = 0, requestDuration = [(200, 10)], batchRetries = 0,
                   streamLag = [(lagLabels client0 [(''job'', ''x'')], 113)]\<rparr>,
        requests = [pushRequest (scripted 3) client0 ''t'' ''job=x''], world = ([], 0, 130)\<rparr>)"
    using sendBatch_success[where ops = ops0 and b = batch0 and n = 1,
        THEN conjunct2, THEN conjunct1, THEN mp,
        OF conjI[OF n0 conjI[OF nf conjI[OF d conjI[OF ok n1]]]]]
    by (simp add: lx tw ls sender0_def Sub_def minDuration_def maxDuration_def)
  have b: "sendBatch (scripted 3) ops0 client0 ''t'' batch0 (sender0 [DoResponse 200]) =
     Some (Returns None,
       \<lparr>metrics = \<lparr>encodedBytes = 5, sentBytes = 5, droppedBytes = 0, sentEntries = 1,
                   droppedEntries = 0, requestDuration = [(200, 10)], batchRetries = 0,
                   streamLag = [(lagLabels client0 [(''job'', ''x'')], 113)]\<rparr>,
        requests = [pushRequest (scripted 3) client0 ''t'' ''job=x''], world = ([], 0, 130)\<rparr>)"
    using sendBatch_success[THEN conjunct2, THEN conjunct2, THEN conjunct1, THEN mp,
        OF conjI[OF e conjI[OF n0' conjI[OF nf conjI[OF d conjI[OF ok n1]]]]]]
    by (simp add: lx tw ls sender0_def Sub_def minDuration_def maxDuration_def)
  have p1: "\<not> list_all (\<lambda>x. ParseMetric (scripted 3) (StreamLabels x) \<noteq> None) (streams ops0 batch1)"
    by (simp add: streams_batch1 scripted_parse)
  have q1: "list_all (\<lambda>x. Entries x \<noteq> []) (streams ops0 batch1)"
    by (simp add: streams_batch1)
  have x1: "lagExit (scripted 3) (streams ops0 batch1) = Returns (Some ErrParseMetric)"
    by (rule sendBatch_success[where ev = "scripted 3" and ss = "streams ops0 batch1",
        THEN conjunct2, THEN conjunct2, THEN conjunct2, THEN conjunct2, THEN conjunct1, THEN mp,
        OF conjI[OF p1 q1]])
  have r: "minDuration \<le> 120 - 7" "120 - 7 \<le> maxDuration"
    by (simp_all add: minDuration_def maxDuration_def)
  have su: "Sub 120 7 = 113"
    using sendBatch_success[where now = 120 and t = 7, THEN conjunct2, THEN conjunct2,
        THEN conjunct2, THEN conjunct2, THEN conjunct2, THEN conjunct1, THEN mp, OF conjI[OF r]]
    by simp
  from e n0' n0 nf d ok n1 a b la lx p1 q1 x1 r su show ?thesis by (intro conjI)
qed

text \<open>
  A response with status 200 to a batch whose stream has a label string that does not
  parse: \<^verbatim>\<open>sendBatch\<close> returns an error and sets no lag gauge.
\<close>

theorem sendBatch_2xx_parse_error:
  "sendBatch (scripted 3) ops0 client0 ''t'' batch1 (sender0 [DoResponse 200]) =
     Some (Returns (Some ErrParseMetric),
       \<lparr>metrics = \<lparr>encodedBytes = 5, sentBytes = 5, droppedBytes = 0, sentEntries = 1,
                   droppedEntries = 0, requestDuration = [(200, 10)], batchRetries = 0,
                   streamLag = []\<rparr>,
        requests = [pushRequest (scripted 3) client0 ''t'' ''job=z''], world = ([], 0, 120)\<rparr>)"
  apply (simp add: sendBatch_encoded[OF encode_batch1])
  apply (subst sendLoop.simps)
  apply (simp add: attempt_def send_def scripted_def client0_def sender0_def Let_def
      signed_divide_int_def streams_batch1 Sub_def minDuration_def maxDuration_def)
  done

section \<open>Properties of the consumer\<close>

lemma consumer0_batch: "currentBatch consumer0 = batch0"
  by (simp add: consumer0_def ConsumeEntries_def ConsumeSeries_def newClientConsumer_def ops0_def
      spec_batch_def batch0_def entry0_def)

lemma consumer0_funs:
  "sendBatchFunc consumer0 = (\<lambda>b. None)" "segmentDeleter consumer0 = (\<lambda>n. None)"
  by (simp_all add: consumer0_def ConsumeEntries_def ConsumeSeries_def newClientConsumer_def)

text \<open>
  C3. \<^verbatim>\<open>SegmentEnd\<close> sends the current batch and then, exactly when that send returned
  no error, asks for the deletion of the segment it was called with; it asks for the
  deletion of no other segment, and of none when the send failed.
\<close>

theorem SegmentEnd_deletes_iff_sent:
  "snd (SegmentEnd c segmentNum) =
     CallSendBatch (currentBatch c) #
       (if sendBatchFunc c (currentBatch c) = None then [CallDeleteSegment segmentNum] else []) \<and>
   ((CallDeleteSegment n \<in> set (snd (SegmentEnd c segmentNum))) =
      (n = segmentNum \<and> sendBatchFunc c (currentBatch c) = None))"
  by (auto simp: SegmentEnd_def split: option.splits)

theorem SegmentEnd_deletes_iff_sent_witness:
  "CallDeleteSegment 3 \<in> set (snd (SegmentEnd consumer0 3)) \<and>
   CallDeleteSegment 3 \<notin> set (snd (SegmentEnd (consumer0\<lparr>sendBatchFunc := send_fails\<rparr>) 3))"
  using SegmentEnd_deletes_iff_sent[of consumer0 3 3]
        SegmentEnd_deletes_iff_sent[of "consumer0\<lparr>sendBatchFunc := send_fails\<rparr>" 3 3]
  by (simp add: consumer0_funs send_fails_def)

text \<open>
  \<^verbatim>\<open>SegmentEnd\<close> never assigns \<^verbatim>\<open>currentBatch\<close>: the consumer it leaves is the consumer it
  was called on.
\<close>

lemma SegmentEnd_consumer: "fst (SegmentEnd c n) = c"
  by (simp add: SegmentEnd_def split: option.splits)

text \<open>
  C4 fails on the code. A consumer that has replayed one entry sends it at the end of
  segment 0, successfully, and has the segment deleted; its current batch is then
  still the batch with that entry, not a new empty batch, and the end of segment 1
  sends the same entry again.
\<close>

theorem SegmentEnd_keeps_batch:
  "snd (SegmentEnd consumer0 0) = [CallSendBatch batch0, CallDeleteSegment 0] \<and>
   currentBatch (fst (SegmentEnd consumer0 0)) = batch0 \<and>
   batch_entries batch0 = [\<lparr>Timestamp = 7, Line = ''hello''\<rparr>] \<and>
   currentBatch (fst (SegmentEnd consumer0 0)) \<noteq> newBatch ops0 0 0 \<and>
   snd (SegmentEnd (fst (SegmentEnd consumer0 0)) 1) = [CallSendBatch batch0, CallDeleteSegment 1]"
  by (simp add: SegmentEnd_def consumer0_batch consumer0_funs batch0_eq batch_entries_def
       ops0_def spec_batch_def batch_new_def)

section \<open>Properties of tenant resolution\<close>

lemma processEntry_reserved:
  "Labels e ReservedLabelTenantID = Some v \<Longrightarrow> snd (processEntry c e) = v"
  by (simp add: processEntry_def getTenantID_def Merge_def Let_def)

lemma recvEntry_routed:
  "\<exists>b0. map_of (batches (recvEntry ops c st e now)) (snd (processEntry c e))
        = Some (fst (add ops b0 (fst (processEntry c e))))"
  apply (cases "processEntry c e")
  apply (auto simp: recvEntry_def Let_def deferred_def update_conv' split: option.splits prod.splits)
      apply (metis fst_conv)+
  done

text \<open>
  C8. \<^verbatim>\<open>getTenantID\<close> returns the value of the reserved label when the label set has
  it, else the configured tenant when that is not empty, else the empty string. So an
  entry that carries the reserved label gets that tenant from \<^verbatim>\<open>processEntry\<close>, whatever
  the configured tenant and the external labels are, and the dispatcher adds it to a
  batch it files under that tenant.
\<close>

theorem getTenantID_resolution:
  "(labels ReservedLabelTenantID = Some v \<longrightarrow> getTenantID c labels = v) \<and>
   (labels ReservedLabelTenantID = None \<and> TenantID (cfg c) \<noteq> [] \<longrightarrow>
      getTenantID c labels = TenantID (cfg c)) \<and>
   (labels ReservedLabelTenantID = None \<and> TenantID (cfg c) = [] \<longrightarrow> getTenantID c labels = []) \<and>
   (Labels e ReservedLabelTenantID = Some v \<longrightarrow>
      snd (processEntry c e) = v \<and>
      (\<exists>b0. map_of (batches (recvEntry ops c st e now)) v = Some (fst (add ops b0 (fst (processEntry c e))))))"
proof (intro conjI impI)
  assume r: "Labels e ReservedLabelTenantID = Some v"
  from processEntry_reserved[OF r] show "snd (processEntry c e) = v" .
  from recvEntry_routed[of ops c st e now] processEntry_reserved[OF r, of c]
  show "\<exists>b0. map_of (batches (recvEntry ops c st e now)) v = Some (fst (add ops b0 (fst (processEntry c e))))"
    by simp
qed (simp_all add: getTenantID_def)

theorem getTenantID_resolution_witness:
  "getTenantID client0 [ReservedLabelTenantID \<mapsto> ''other''] = ''other'' \<and>
   getTenantID client0 [''job'' \<mapsto> ''x''] = ''static'' \<and>
   getTenantID (client0\<lparr>cfg := (cfg client0)\<lparr>TenantID := []\<rparr>\<rparr>) [''job'' \<mapsto> ''x''] = [] \<and>
   snd (processEntry client0 \<lparr>Labels = [ReservedLabelTenantID \<mapsto> ''other''],
                              Entry = \<lparr>Timestamp = 1, Line = ''a''\<rparr>\<rparr>) = ''other''"
proof -
  have a: "getTenantID client0 [ReservedLabelTenantID \<mapsto> ''other''] = ''other''"
    using getTenantID_resolution[THEN conjunct1, of "[ReservedLabelTenantID \<mapsto> ''other'']" "''other''" client0]
    by simp
  have b: "getTenantID client0 [''job'' \<mapsto> ''x''] = ''static''"
    using getTenantID_resolution[THEN conjunct2, THEN conjunct1, of "[''job'' \<mapsto> ''x'']" client0]
    by (simp add: ReservedLabelTenantID_def client0_def)
  have c: "getTenantID (client0\<lparr>cfg := (cfg client0)\<lparr>TenantID := []\<rparr>\<rparr>) [''job'' \<mapsto> ''x''] = []"
    using getTenantID_resolution[THEN conjunct2, THEN conjunct2, THEN conjunct1,
        of "[''job'' \<mapsto> ''x'']" "client0\<lparr>cfg := (cfg client0)\<lparr>TenantID := []\<rparr>\<rparr>"]
    by (simp add: ReservedLabelTenantID_def)
  have l: "Labels \<lparr>Labels = [ReservedLabelTenantID \<mapsto> ''other''],
                    Entry = \<lparr>Timestamp = 1, Line = ''a''\<rparr>\<rparr> ReservedLabelTenantID = Some ''other''"
    by simp
  have d: "snd (processEntry client0 \<lparr>Labels = [ReservedLabelTenantID \<mapsto> ''other''],
                              Entry = \<lparr>Timestamp = 1, Line = ''a''\<rparr>\<rparr>) = ''other''"
    by (rule getTenantID_resolution[THEN conjunct2, THEN conjunct2, THEN conjunct2, THEN mp,
          OF l, THEN conjunct1])
  from a b c d show ?thesis by (intro conjI)
qed

end
